theory Spec2Isabelle
  imports Main
begin

section \<open>Bootstrap of the operator: a shallow embedding\<close>

text \<open>
  The development follows three sources: \<^verbatim>\<open>internal/bootstrap/operator/main_operator.go\<close>
  (the main operator, its \<^verbatim>\<open>Setup\<close> and \<^verbatim>\<open>Start\<close>, the cache builders, the startup
  tasks), the factory package that stands at the end of that file, and \<^verbatim>\<open>cmd/main.go\<close>.
  Calls into other packages (controller-runtime, \<^verbatim>\<open>pkg/cluster\<close>, the handler
  registries, the webhook and reconciler constructors) are external: their outcome is
  read from a record \<open>world\<close>, and every call is written to a trace of events, so
  that the order of the calls can be stated.
\<close>

subsection \<open>Errors\<close>

text \<open>
  A Go \<^verbatim>\<open>error\<close> is either a plain message (\<^verbatim>\<open>errors.New\<close>, or \<^verbatim>\<open>fmt.Errorf\<close> without
  \<^verbatim>\<open>%w\<close>) or a wrapper made by \<^verbatim>\<open>fmt.Errorf("prefix: %w", err)\<close>. The wrapper keeps
  the prefix and the wrapped error; \<open>Error\<close> is the method \<^verbatim>\<open>Error()\<close> and
  \<open>Unwrap\<close> the method \<^verbatim>\<open>Unwrap()\<close>.
\<close>

datatype error = errorString string | wrapError string error

fun Error :: "error \<Rightarrow> string" where
  "Error (errorString s) = s"
| "Error (wrapError p e) = p @ Error e"

fun Unwrap :: "error \<Rightarrow> error option" where
  "Unwrap (errorString s) = None"
| "Unwrap (wrapError p e) = Some e"

definition errors_New :: "string \<Rightarrow> error" where
  "errors_New s = errorString s"

text \<open>\<^verbatim>\<open>fmt.Errorf(p + "%w", err)\<close> and \<^verbatim>\<open>fmt.Errorf(p + "%s", s)\<close>.\<close>

definition Errorf_w :: "string \<Rightarrow> error \<Rightarrow> error" where
  "Errorf_w p err = wrapError p err"

definition Errorf_s :: "string \<Rightarrow> string \<Rightarrow> error" where
  "Errorf_s p s = errorString (p @ s)"

subsection \<open>Configuration, scheme, operator\<close>

type_synonym Platform = string
type_synonym RestConfig = string
type_synonym Scheme = "string list"

record Config =
  RestConfig :: RestConfig
  MetricsAddr :: string
  PprofAddr :: string
  HealthProbeAddr :: string
  LeaderElection :: bool
  MonitoringNamespace :: string

text \<open>
  \<^verbatim>\<open>schemes.go\<close>: \<^verbatim>\<open>RegisterSchemes\<close> adds thirty API groups to the scheme, in this
  order. Each registration is wrapped in \<^verbatim>\<open>utilruntime.Must\<close>; the registrations are of
  fixed, generated types and are taken to succeed.
\<close>

definition NewScheme :: Scheme where
  "NewScheme = []"

definition RegisterSchemes :: "Scheme \<Rightarrow> Scheme" where
  "RegisterSchemes scheme = scheme @
     [''componentApi'', ''serviceApi'', ''infrav1alpha1'', ''infrav1'', ''clientgoscheme'',
      ''dsciv1'', ''dsciv2'', ''dscv1'', ''dscv2'', ''featurev1'', ''networkingv1'',
      ''rbacv1'', ''corev1'', ''routev1'', ''appsv1'', ''oauthv1'', ''ofapiv1alpha1'',
      ''userv1'', ''ofapiv2'', ''ocappsv1'', ''buildv1'', ''imagev1'', ''apiextensionsv1'',
      ''admissionregistrationv1'', ''promv1'', ''operatorv1'', ''consolev1'',
      ''securityv1'', ''templatev1'', ''gwapiv1'']"

subsection \<open>The startup-task wrapper\<close>

text \<open>
  A \<^verbatim>\<open>RunnableFunc\<close> is a function of the context that acts (it logs, it calls a
  collaborator) and returns an error or nil: here, the list of its actions and its
  result. \<^verbatim>\<open>leaderElectionRunnableWrapper\<close> is the struct with the one field \<^verbatim>\<open>Fn\<close>.
\<close>

datatype Context = SignalHandler | IntoContext Context string

datatype Client = Client RestConfig Scheme

datatype log = Info string | ErrorLog error string

datatype action =
    Log log
  | Call_CreateDefaultDSCI Context Client Platform string
  | Call_CreateDefaultDSC Context Client
  | Call_CleanupExistingResource Context Client

type_synonym RunnableFunc = "Context \<Rightarrow> action list \<times> error option"

datatype leaderElectionRunnableWrapper = leaderElectionRunnableWrapper (Fn: RunnableFunc)

definition leaderElectionRunnableFunc :: "RunnableFunc \<Rightarrow> leaderElectionRunnableWrapper" where
  "leaderElectionRunnableFunc fn = leaderElectionRunnableWrapper fn"

definition wrapper_Start :: "leaderElectionRunnableWrapper \<Rightarrow> Context \<Rightarrow> action list \<times> error option" where
  "wrapper_Start l ctx = Fn l ctx"

definition NeedLeaderElection :: "leaderElectionRunnableWrapper \<Rightarrow> bool" where
  "NeedLeaderElection l = True"

subsection \<open>The cache options and the manager\<close>

text \<open>
  \<^verbatim>\<open>map[string]cache.Config\<close> with the empty struct \<^verbatim>\<open>cache.Config{}\<close> as every value:
  a map whose domain is the namespace set.
\<close>

datatype cache_Config = cache_Config

type_synonym namespaceConfigs = "string \<rightharpoonup> cache_Config"

text \<open>
  The object-mutation hook \<^verbatim>\<open>DefaultTransform\<close> (lines 139 to 144). Its argument is an
  interface value: nil, a value that is no Kubernetes object (\<^verbatim>\<open>meta.Accessor\<close> fails on
  it, as on the tombstones an informer hands over), or a pointer to a live object. The
  objects live in a store; the hook mutates the object it is given and returns the
  pointer it received.
\<close>

type_synonym addr = nat

record Object =
  obj_kind :: string
  obj_name :: string
  managedFields :: "string list option"

type_synonym store = "addr \<Rightarrow> Object"

datatype any = nil_any | NotObject string | ObjectPtr addr

definition meta_Accessor :: "any \<Rightarrow> error + addr" where
  "meta_Accessor v = (case v of ObjectPtr a \<Rightarrow> Inr a | _ \<Rightarrow> Inl (errors_New ''object does not implement the Object interfaces''))"

definition GetManagedFields :: "Object \<Rightarrow> string list option" where
  "GetManagedFields obj = managedFields obj"

definition SetManagedFields :: "string list option \<Rightarrow> Object \<Rightarrow> Object" where
  "SetManagedFields mf obj = obj\<lparr>managedFields := mf\<rparr>"

definition DefaultTransform :: "any \<Rightarrow> store \<Rightarrow> (any \<times> error option) \<times> store" where
  "DefaultTransform v s =
     (case meta_Accessor v of
        Inr a \<Rightarrow>
          if GetManagedFields (s a) \<noteq> None
          then ((v, None), s(a := SetManagedFields None (s a)))
          else ((v, None), s)
      | Inl err \<Rightarrow> ((v, None), s))"


text \<open>
  The literal \<^verbatim>\<open>cache.Options\<close> of lines 102 to 145 and the \<^verbatim>\<open>ctrl.Options\<close> of lines
  148 to 172. A \<^verbatim>\<open>cache.ByObject\<close> restricts a kind either to namespaces or by a field
  selector on the object name.
\<close>

datatype ByObject = Namespaces namespaceConfigs | Field string string

record cache_Options =
  cache_Scheme :: Scheme
  cache_ByObject :: "(string \<times> ByObject) list"
  cache_DefaultTransform :: "any \<Rightarrow> store \<Rightarrow> (any \<times> error option) \<times> store"

record ctrl_Options =
  opt_Scheme :: Scheme
  opt_Metrics_BindAddress :: string
  opt_WebhookServer_Port :: nat
  opt_PprofBindAddress :: string
  opt_HealthProbeBindAddress :: string
  opt_Cache :: cache_Options
  opt_LeaderElection :: bool
  opt_LeaderElectionID :: string
  opt_Client_Cache_DisableFor :: "string list"
  opt_Client_Cache_Unstructured :: bool

text \<open>
  The manager (\<^verbatim>\<open>pkg/manager\<close> around controller-runtime's) as far as this code uses
  it: the options it was built from, the runnables added to it, and its health checks.
\<close>

record Manager =
  mgr_Options :: ctrl_Options
  runnables :: "leaderElectionRunnableWrapper list"
  healthzChecks :: "string list"
  readyzChecks :: "string list"

definition manager_New :: "ctrl_Options \<Rightarrow> Manager" where
  "manager_New opts = \<lparr>mgr_Options = opts, runnables = [], healthzChecks = [], readyzChecks = []\<rparr>"

record mainOperator =
  config :: Config
  mgr :: "Manager option"
  scheme :: Scheme

text \<open>\<^verbatim>\<open>New\<close> (lines 54 to 61): the field \<^verbatim>\<open>mgr\<close> is not set, so it is nil.\<close>

definition New :: "Config \<Rightarrow> mainOperator" where
  "New cfg = (let scheme = RegisterSchemes NewScheme in \<lparr>config = cfg, mgr = None, scheme = scheme\<rparr>)"

subsection \<open>The world outside\<close>

text \<open>
  The handlers of the two registries: a name, the result of \<^verbatim>\<open>Init(platform)\<close> and the
  result of building the handler's reconciler.
\<close>

record ServiceHandler =
  sh_GetName :: string
  sh_Init :: "Platform \<Rightarrow> error option"
  sh_NewReconciler :: "error option"

record ComponentHandler =
  ch_GetName :: string
  ch_Init :: "Platform \<Rightarrow> error option"
  ch_NewComponentReconciler :: "error option"

text \<open>
  What the collaborators answer. The constants \<^verbatim>\<open>cluster.ManagedRhoai\<close>,
  \<^verbatim>\<open>cluster.NamespaceConsoleLink\<close> and \<^verbatim>\<open>cluster.ClusterAuthenticationObj\<close> are declared
  in \<^verbatim>\<open>pkg/cluster\<close>, outside the sources at hand, and are parameters here.
  \<^verbatim>\<open>cluster.GetOperatorNamespace()\<close> returns a string and an error,
  \<^verbatim>\<open>cluster.GetApplicationNamespace()\<close> a string only; both read the cluster
  configuration that \<^verbatim>\<open>cluster.Init\<close> resolved, so they answer the same at every call.
\<close>

record world =
  environ :: "string \<rightharpoonup> string"
  LoadConfig_res :: "error + Config"
  client_New_res :: "error option"
  cluster_Init_res :: "error option"
  GetRelease_Name :: Platform
  ManagedRhoai :: Platform
  NamespaceConsoleLink :: string
  ClusterAuthenticationObj :: string
  GetOperatorNamespace_res :: "error + string"
  GetApplicationNamespace_res :: string
  service_registry :: "ServiceHandler list"
  component_registry :: "ComponentHandler list"
  GetConfigOrDie_res :: "RestConfig option"
  NewManager_res :: "error option"
  RegisterAllWebhooks_res :: "error option"
  DSCI_SetupWithManager_res :: "error option"
  NewDataScienceClusterReconciler_res :: "error option"
  mgr_Add_res :: "leaderElectionRunnableWrapper \<Rightarrow> error option"
  AddHealthzCheck_res :: "error option"
  AddReadyzCheck_res :: "error option"
  mgr_Start_res :: "error option"
  CreateDefaultDSCI_res :: "error option"
  CreateDefaultDSC_res :: "error option"
  CleanupExistingResource_res :: "error option"

text \<open>The calls the bootstrap makes, and the trace: calls and log lines in order.\<close>

datatype call =
    c_LoadConfig
  | c_Create
  | c_client_New
  | c_cluster_Init
  | c_Init_service string
  | c_Init_component string
  | c_createSecretCacheConfig
  | c_createODHGeneralCacheConfig
  | c_GetConfigOrDie
  | c_NewManager
  | c_RegisterAllWebhooks
  | c_DSCI_SetupWithManager
  | c_NewDataScienceClusterReconciler
  | c_NewReconciler_service string
  | c_NewComponentReconciler string
  | c_mgr_Add leaderElectionRunnableWrapper
  | c_AddHealthzCheck string
  | c_AddReadyzCheck string
  | c_Setup
  | c_Start
  | c_mgr_Start

datatype event = Call call | Logged log

datatype 'a outcome = Return 'a | Exit nat | Panic string

text \<open>\<^verbatim>\<open>os.LookupEnv\<close>: the value and whether the variable is present.\<close>

definition LookupEnv :: "world \<Rightarrow> string \<Rightarrow> string \<times> bool" where
  "LookupEnv w k = (case environ w k of Some v \<Rightarrow> (v, True) | None \<Rightarrow> ([], False))"

definition client_New :: "world \<Rightarrow> RestConfig \<Rightarrow> Scheme \<Rightarrow> error + Client" where
  "client_New w rc sch = (case client_New_res w of Some err \<Rightarrow> Inl err | None \<Rightarrow> Inr (Client rc sch))"

text \<open>
  \<^verbatim>\<open>mgr.Add\<close>: the runtime accepts the runnable, which then belongs to the manager,
  or refuses it with an error.
\<close>

definition mgr_Add :: "world \<Rightarrow> Manager \<Rightarrow> leaderElectionRunnableWrapper \<Rightarrow> error option \<times> Manager" where
  "mgr_Add w m r =
     (case mgr_Add_res w r of
        Some err \<Rightarrow> (Some err, m)
      | None \<Rightarrow> (None, m\<lparr>runnables := runnables m @ [r]\<rparr>))"

definition AddHealthzCheck :: "world \<Rightarrow> Manager \<Rightarrow> string \<Rightarrow> error option \<times> Manager" where
  "AddHealthzCheck w m n =
     (case AddHealthzCheck_res w of
        Some err \<Rightarrow> (Some err, m)
      | None \<Rightarrow> (None, m\<lparr>healthzChecks := healthzChecks m @ [n]\<rparr>))"

definition AddReadyzCheck :: "world \<Rightarrow> Manager \<Rightarrow> string \<Rightarrow> error option \<times> Manager" where
  "AddReadyzCheck w m n =
     (case AddReadyzCheck_res w of
        Some err \<Rightarrow> (Some err, m)
      | None \<Rightarrow> (None, m\<lparr>readyzChecks := readyzChecks m @ [n]\<rparr>))"

text \<open>
  Modelled from the spec: \<^verbatim>\<open>ForEach\<close> of the handler registries
  (\<^verbatim>\<open>internal/controller/services/registry\<close> and \<^verbatim>\<open>components/registry\<close>) is not among
  the sources. The specification says that it applies the function to every registered
  handler in registration order, stops at the first error and returns it annotated with
  the name of the handler that failed; over an empty registry it succeeds and never
  calls the function.
\<close>

fun ForEach :: "('h \<Rightarrow> string) \<Rightarrow> 'h list \<Rightarrow> ('h \<Rightarrow> error option \<times> event list) \<Rightarrow> error option \<times> event list" where
  "ForEach nm [] fn = (None, [])"
| "ForEach nm (h # hs) fn =
     (case fn h of
        (Some err, t) \<Rightarrow> (Some (Errorf_w (nm h @ '': '') err), t)
      | (None, t) \<Rightarrow> (case ForEach nm hs fn of (r, t') \<Rightarrow> (r, t @ t')))"

definition sr_ForEach :: "world \<Rightarrow> (ServiceHandler \<Rightarrow> error option \<times> event list) \<Rightarrow> error option \<times> event list" where
  "sr_ForEach w fn = ForEach sh_GetName (service_registry w) fn"

definition cr_ForEach :: "world \<Rightarrow> (ComponentHandler \<Rightarrow> error option \<times> event list) \<Rightarrow> error option \<times> event list" where
  "cr_ForEach w fn = ForEach ch_GetName (component_registry w) fn"


subsection \<open>The cache policy builders\<close>

text \<open>
  \<^verbatim>\<open>getCommonCache\<close> (lines 318 to 337), \<^verbatim>\<open>createSecretCacheConfig\<close> (339 to 348) and
  \<^verbatim>\<open>createODHGeneralCacheConfig\<close> (350 to 360). The only failure is that of
  \<^verbatim>\<open>cluster.GetOperatorNamespace()\<close>.
\<close>

definition getCommonCache :: "world \<Rightarrow> Platform \<Rightarrow> error + namespaceConfigs" where
  "getCommonCache w platform =
     (let namespaceConfigs = Map.empty in
      case GetOperatorNamespace_res w of
        Inl err \<Rightarrow> Inl err
      | Inr operatorNs \<Rightarrow>
          let namespaceConfigs = namespaceConfigs(operatorNs \<mapsto> cache_Config);
              namespaceConfigs = namespaceConfigs(''redhat-ods-monitoring'' \<mapsto> cache_Config);
              appNamespace = GetApplicationNamespace_res w;
              namespaceConfigs = namespaceConfigs(appNamespace \<mapsto> cache_Config);
              namespaceConfigs =
                (if platform = ManagedRhoai w
                 then namespaceConfigs(NamespaceConsoleLink w \<mapsto> cache_Config)
                 else namespaceConfigs)
          in Inr namespaceConfigs)"

definition createSecretCacheConfig :: "world \<Rightarrow> Platform \<Rightarrow> error + namespaceConfigs" where
  "createSecretCacheConfig w platform =
     (case getCommonCache w platform of
        Inl err \<Rightarrow> Inl err
      | Inr namespaceConfigs \<Rightarrow>
          Inr (namespaceConfigs(''openshift-ingress'' \<mapsto> cache_Config)))"

definition createODHGeneralCacheConfig :: "world \<Rightarrow> Platform \<Rightarrow> error + namespaceConfigs" where
  "createODHGeneralCacheConfig w platform =
     (case getCommonCache w platform of
        Inl err \<Rightarrow> Inl err
      | Inr namespaceConfigs \<Rightarrow>
          Inr (namespaceConfigs(''openshift-operators'' \<mapsto> cache_Config,
                                ''openshift-ingress'' \<mapsto> cache_Config)))"

definition cacheOptions :: "world \<Rightarrow> Scheme \<Rightarrow> namespaceConfigs \<Rightarrow> namespaceConfigs \<Rightarrow> cache_Options" where
  "cacheOptions w sch secretCache odhCache =
     \<lparr>cache_Scheme = sch,
      cache_ByObject =
        [(''corev1.Secret'', Namespaces secretCache),
         (''corev1.ConfigMap'', Namespaces odhCache),
         (''operatorv1.IngressController'', Field ''metadata.name'' ''default''),
         (''configv1.Authentication'', Field ''metadata.name'' (ClusterAuthenticationObj w)),
         (''appsv1.Deployment'', Namespaces odhCache),
         (''promv1.PrometheusRule'', Namespaces odhCache),
         (''promv1.ServiceMonitor'', Namespaces odhCache),
         (''routev1.Route'', Namespaces odhCache),
         (''networkingv1.NetworkPolicy'', Namespaces odhCache),
         (''rbacv1.Role'', Namespaces odhCache),
         (''rbacv1.RoleBinding'', Namespaces odhCache)],
      cache_DefaultTransform = DefaultTransform\<rparr>"

definition managerOptions :: "Config \<Rightarrow> Scheme \<Rightarrow> cache_Options \<Rightarrow> ctrl_Options" where
  "managerOptions cfg sch copts =
     \<lparr>opt_Scheme = sch,
      opt_Metrics_BindAddress = MetricsAddr cfg,
      opt_WebhookServer_Port = 9443,
      opt_PprofBindAddress = PprofAddr cfg,
      opt_HealthProbeBindAddress = HealthProbeAddr cfg,
      opt_Cache = copts,
      opt_LeaderElection = LeaderElection cfg,
      opt_LeaderElectionID = ''07ed84f7.opendatahub.io'',
      opt_Client_Cache_DisableFor =
        [''gvk.OpenshiftIngress'', ''ofapiv1alpha1.Subscription'',
         ''authorizationv1.SelfSubjectRulesReview'', ''corev1.Pod'', ''userv1.Group'',
         ''ofapiv1alpha1.CatalogSource''],
      opt_Client_Cache_Unstructured = True\<rparr>"

subsection \<open>The registrar: Init and reconciler creation over the registries\<close>

text \<open>
  Lines 230 to 262. The methods that use \<^verbatim>\<open>o.mgr\<close> are called by \<^verbatim>\<open>Setup\<close> after it
  assigned the field (line 178); they take the manager as an argument.
\<close>

definition initServices :: "world \<Rightarrow> Context \<Rightarrow> Platform \<Rightarrow> error option \<times> event list" where
  "initServices w ctx p =
     sr_ForEach w (\<lambda>sh. (sh_Init sh p, [Call (c_Init_service (sh_GetName sh))]))"

definition initComponents :: "world \<Rightarrow> Context \<Rightarrow> Platform \<Rightarrow> error option \<times> event list" where
  "initComponents w ctx p =
     cr_ForEach w (\<lambda>ch. (ch_Init ch p, [Call (c_Init_component (ch_GetName ch))]))"

definition createServiceReconcilers :: "world \<Rightarrow> Manager \<Rightarrow> Context \<Rightarrow> error option \<times> event list" where
  "createServiceReconcilers w m ctx =
     sr_ForEach w (\<lambda>sh.
       let t = [Logged (Info ''creating reconciler''), Call (c_NewReconciler_service (sh_GetName sh))] in
       case sh_NewReconciler sh of
         Some err \<Rightarrow>
           (Some (Errorf_w (''error creating '' @ sh_GetName sh @ '' service reconciler: '') err), t)
       | None \<Rightarrow> (None, t))"

definition createComponentReconcilers :: "world \<Rightarrow> Manager \<Rightarrow> Context \<Rightarrow> error option \<times> event list" where
  "createComponentReconcilers w m ctx =
     cr_ForEach w (\<lambda>ch.
       let t = [Logged (Info ''creating reconciler''), Call (c_NewComponentReconciler (ch_GetName ch))] in
       case ch_NewComponentReconciler ch of
         Some err \<Rightarrow>
           (Some (Errorf_w (''error creating '' @ ch_GetName ch @ '' component reconciler: '') err), t)
       | None \<Rightarrow> (None, t))"

subsection \<open>The startup tasks\<close>

text \<open>
  The three closures of \<^verbatim>\<open>addStartupTasks\<close> (lines 272, 288 and 302): each logs, calls
  its collaborator with the context it is run with, logs a failure and returns it.
\<close>

definition createDefaultDSCIFunc :: "world \<Rightarrow> Config \<Rightarrow> Client \<Rightarrow> Platform \<Rightarrow> RunnableFunc" where
  "createDefaultDSCIFunc w cfg setupClient platform = (\<lambda>ctx.
     let err = CreateDefaultDSCI_res w in
     ([Log (Info ''create default DSCI''),
       Call_CreateDefaultDSCI ctx setupClient platform (MonitoringNamespace cfg)] @
      (case err of
         Some e \<Rightarrow> [Log (ErrorLog e ''unable to create initial setup for the operator'')]
       | None \<Rightarrow> []),
      err))"

definition createDefaultDSCFunc :: "world \<Rightarrow> Client \<Rightarrow> RunnableFunc" where
  "createDefaultDSCFunc w setupClient = (\<lambda>ctx.
     let err = CreateDefaultDSC_res w in
     ([Log (Info ''create default DSC''), Call_CreateDefaultDSC ctx setupClient] @
      (case err of
         Some e \<Rightarrow> [Log (ErrorLog e ''unable to create default DSC CR by the operator'')]
       | None \<Rightarrow> []),
      err))"

definition cleanup :: "world \<Rightarrow> Client \<Rightarrow> RunnableFunc" where
  "cleanup w setupClient = (\<lambda>ctx.
     case CleanupExistingResource_res w of
       Some err \<Rightarrow>
         ([Log (Info ''run upgrade task''), Call_CleanupExistingResource ctx setupClient,
           Log (ErrorLog err ''unable to perform cleanup'')],
          Some err)
     | None \<Rightarrow>
         ([Log (Info ''run upgrade task''), Call_CleanupExistingResource ctx setupClient], None))"

text \<open>\<^verbatim>\<open>addStartupTasks\<close> (lines 264 to 316).\<close>

definition addStartupTasks ::
  "world \<Rightarrow> Config \<Rightarrow> Manager \<Rightarrow> Context \<Rightarrow> Client \<Rightarrow> Platform \<Rightarrow> error option \<times> Manager \<times> event list" where
  "addStartupTasks w cfg m ctx setupClient platform =
     (let (disableDSCConfig, existDSCConfig) = LookupEnv w ''DISABLE_DSC_CONFIG'';
          (err1, m1, t1) =
            (if existDSCConfig \<and> disableDSCConfig \<noteq> ''false''
             then (None, m, [Logged (Info ''DSCI auto creation is disabled'')])
             else
               (let r = leaderElectionRunnableFunc (createDefaultDSCIFunc w cfg setupClient platform) in
                case mgr_Add w m r of
                  (Some err, m') \<Rightarrow>
                    (Some (Errorf_w ''error scheduling DSCI creation: '' err), m', [Call (c_mgr_Add r)])
                | (None, m') \<Rightarrow> (None, m', [Call (c_mgr_Add r)])))
      in
      case err1 of
        Some e \<Rightarrow> (Some e, m1, t1)
      | None \<Rightarrow>
          (let (err2, m2, t2) =
             (if platform = ManagedRhoai w
              then
                (let r = leaderElectionRunnableFunc (createDefaultDSCFunc w setupClient) in
                 case mgr_Add w m1 r of
                   (Some err, m') \<Rightarrow>
                     (Some (Errorf_w ''error scheduling DSC creation: '' err), m', [Call (c_mgr_Add r)])
                 | (None, m') \<Rightarrow> (None, m', [Call (c_mgr_Add r)]))
              else (None, m1, []))
           in
           case err2 of
             Some e \<Rightarrow> (Some e, m2, t1 @ t2)
           | None \<Rightarrow>
               (let r = leaderElectionRunnableFunc (cleanup w setupClient) in
                case mgr_Add w m2 r of
                  (Some err, m3) \<Rightarrow>
                    (None, m3,
                     t1 @ t2 @
                     [Call (c_mgr_Add r),
                      Logged (ErrorLog err ''error remove deprecated resources from previous version'')])
                | (None, m3) \<Rightarrow> (None, m3, t1 @ t2 @ [Call (c_mgr_Add r)]))))"


subsection \<open>Setup and Start\<close>

text \<open>
  \<^verbatim>\<open>Setup\<close> (lines 65 to 223). Every \<^verbatim>\<open>return fmt.Errorf(...)\<close> of the source is a
  branch that returns here, with the trace up to that call. \<^verbatim>\<open>ctrl.GetConfigOrDie()\<close>
  ends the process when there is no configuration. The receiver is a pointer: the
  operator is returned as \<^verbatim>\<open>Setup\<close> leaves it.
\<close>

definition Setup :: "world \<Rightarrow> mainOperator \<Rightarrow> Context \<Rightarrow> error option outcome \<times> mainOperator \<times> event list" where
  "Setup w op ctx =
     (let t = [Call c_client_New] in
      case client_New w (RestConfig (config op)) (scheme op) of
        Inl err \<Rightarrow> (Return (Some (Errorf_w ''error getting client for setup: '' err)), op, t)
      | Inr setupClient \<Rightarrow>
     (let t = t @ [Call c_cluster_Init] in
      case cluster_Init_res w of
        Some err \<Rightarrow> (Return (Some (Errorf_w ''unable to initialize cluster config: '' err)), op, t)
      | None \<Rightarrow>
     (let platform = GetRelease_Name w in
      case initServices w ctx platform of
        (Some err, t1) \<Rightarrow> (Return (Some (Errorf_w ''unable to init services: '' err)), op, t @ t1)
      | (None, t1) \<Rightarrow>
     (let t = t @ t1 in
      case initComponents w ctx platform of
        (Some err, t1) \<Rightarrow> (Return (Some (Errorf_w ''unable to init components: '' err)), op, t @ t1)
      | (None, t1) \<Rightarrow>
     (let t = t @ t1 @ [Call c_createSecretCacheConfig] in
      case createSecretCacheConfig w platform of
        Inl err \<Rightarrow>
          (Return (Some (Errorf_w ''unable to get application namespace into cache: '' err)), op, t)
      | Inr secretCache \<Rightarrow>
     (let t = t @ [Call c_createODHGeneralCacheConfig] in
      case createODHGeneralCacheConfig w platform of
        Inl err \<Rightarrow>
          (Return (Some (Errorf_w ''unable to get application namespace into cache: '' err)), op, t)
      | Inr odhCache \<Rightarrow>
     (let cacheOptions = cacheOptions w (scheme op) secretCache odhCache;
          t = t @ [Call c_GetConfigOrDie] in
      case GetConfigOrDie_res w of
        None \<Rightarrow> (Exit 1, op, t)
      | Some restConfig \<Rightarrow>
     (let t = t @ [Call c_NewManager] in
      case NewManager_res w of
        Some err \<Rightarrow> (Return (Some (Errorf_w ''unable to start manager: '' err)), op, t)
      | None \<Rightarrow>
     (let m = manager_New (managerOptions (config op) (scheme op) cacheOptions);
          op = op\<lparr>mgr := Some m\<rparr>;
          t = t @ [Call c_RegisterAllWebhooks] in
      case RegisterAllWebhooks_res w of
        Some err \<Rightarrow> (Return (Some (Errorf_w ''unable to register webhooks: '' err)), op, t)
      | None \<Rightarrow>
     (let t = t @ [Call c_DSCI_SetupWithManager] in
      case DSCI_SetupWithManager_res w of
        Some err \<Rightarrow>
          (Return (Some (Errorf_w ''unable to create controller DSCInitialization: '' err)), op, t)
      | None \<Rightarrow>
     (let t = t @ [Call c_NewDataScienceClusterReconciler] in
      case NewDataScienceClusterReconciler_res w of
        Some err \<Rightarrow>
          (Return (Some (Errorf_w ''unable to create controller DataScienceCluster: '' err)), op, t)
      | None \<Rightarrow>
     (case createServiceReconcilers w m ctx of
        (Some err, t1) \<Rightarrow>
          (Return (Some (Errorf_w ''unable to create service controllers: '' err)), op, t @ t1)
      | (None, t1) \<Rightarrow>
     (let t = t @ t1 in
      case createComponentReconcilers w m ctx of
        (Some err, t1) \<Rightarrow>
          (Return (Some (Errorf_w ''unable to create component controllers: '' err)), op, t @ t1)
      | (None, t1) \<Rightarrow>
     (let t = t @ t1 in
      case addStartupTasks w (config op) m ctx setupClient platform of
        (Some err, m, t1) \<Rightarrow> (Return (Some err), op\<lparr>mgr := Some m\<rparr>, t @ t1)
      | (None, m, t1) \<Rightarrow>
     (let t = t @ t1 @ [Call (c_AddHealthzCheck ''healthz'')] in
      case AddHealthzCheck w m ''healthz'' of
        (Some err, m) \<Rightarrow>
          (Return (Some (Errorf_w ''unable to set up health check: '' err)), op\<lparr>mgr := Some m\<rparr>, t)
      | (None, m) \<Rightarrow>
     (let t = t @ [Call (c_AddReadyzCheck ''readyz'')] in
      case AddReadyzCheck w m ''readyz'' of
        (Some err, m) \<Rightarrow>
          (Return (Some (Errorf_w ''unable to set up ready check: '' err)), op\<lparr>mgr := Some m\<rparr>, t)
      | (None, m) \<Rightarrow> (Return None, op\<lparr>mgr := Some m\<rparr>, t)))))))))))))))))"

text \<open>
  \<^verbatim>\<open>Start\<close> (lines 226 to 228) calls \<^verbatim>\<open>o.mgr.Start(ctx)\<close>: through a nil \<^verbatim>\<open>o.mgr\<close> that
  is a nil pointer dereference, a panic; otherwise it is what the manager's run loop
  returns.
\<close>

definition Start :: "world \<Rightarrow> mainOperator \<Rightarrow> Context \<Rightarrow> error option outcome \<times> event list" where
  "Start w op ctx =
     (case mgr op of
        None \<Rightarrow> (Panic ''invalid memory address or nil pointer dereference'', [])
      | Some m \<Rightarrow> (Return (mgr_Start_res w), [Call c_mgr_Start]))"

subsection \<open>The factory\<close>

type_synonym OperatorType = string

definition OperatorTypeMain :: OperatorType where
  "OperatorTypeMain = ''main''"

definition OperatorTypeCloudManager :: OperatorType where
  "OperatorTypeCloudManager = ''cloud-manager''"

record Factory =
  factory_config :: Config

definition NewFactory :: "Config \<Rightarrow> Factory" where
  "NewFactory cfg = \<lparr>factory_config = cfg\<rparr>"

text \<open>
  \<^verbatim>\<open>Create\<close>: the switch over the operator type. The Go function returns a pair of
  which exactly one component is nil; here a sum.
\<close>

definition Create :: "Factory \<Rightarrow> OperatorType \<Rightarrow> error + mainOperator" where
  "Create f operatorType =
     (if operatorType = OperatorTypeMain then Inr (New (factory_config f))
      else if operatorType = OperatorTypeCloudManager
      then Inl (errors_New ''cloud-manager operator not yet implemented'')
      else Inl (Errorf_s ''unknown operator type: '' operatorType))"

subsection \<open>The entry point\<close>

text \<open>
  \<^verbatim>\<open>main\<close> of \<^verbatim>\<open>cmd/main.go\<close>: the trace of the process and its exit code. Every
  failure is logged and followed by \<^verbatim>\<open>os.Exit(1)\<close>; a panic ends a Go process with
  code 2.
\<close>

definition main :: "world \<Rightarrow> event list \<times> nat" where
  "main w =
     (case LoadConfig_res w of
        Inl err \<Rightarrow>
          ([Call c_LoadConfig, Logged (Info (''Error loading configuration: '' @ Error err))], 1)
      | Inr cfg \<Rightarrow>
     (let ctx = IntoContext SignalHandler ''setup'';
          f = NewFactory cfg;
          t = [Call c_LoadConfig, Call c_Create] in
      case Create f OperatorTypeMain of
        Inl err \<Rightarrow> (t @ [Logged (ErrorLog err ''unable to create operator'')], 1)
      | Inr op \<Rightarrow>
     (case Setup w op ctx of
        (Exit n, op, t1) \<Rightarrow> (t @ [Call c_Setup] @ t1, n)
      | (Panic msg, op, t1) \<Rightarrow> (t @ [Call c_Setup] @ t1, 2)
      | (Return (Some err), op, t1) \<Rightarrow>
          (t @ [Call c_Setup] @ t1 @ [Logged (ErrorLog err ''unable to setup operator'')], 1)
      | (Return None, op, t1) \<Rightarrow>
     (let t = t @ [Call c_Setup] @ t1 @ [Logged (Info ''starting operator''), Call c_Start] in
      case Start w op ctx of
        (Exit n, t1) \<Rightarrow> (t @ t1, n)
      | (Panic msg, t1) \<Rightarrow> (t @ t1, 2)
      | (Return (Some err), t1) \<Rightarrow> (t @ t1 @ [Logged (ErrorLog err ''problem running operator'')], 1)
      | (Return None, t1) \<Rightarrow> (t @ t1, 0)))))"


subsection \<open>Observations\<close>

text \<open>
  The namespace sets of the two cache configurations: the keys of the map a builder
  returns (no set when it fails).
\<close>

definition secretCacheNamespaces :: "world \<Rightarrow> Platform \<Rightarrow> string set" where
  "secretCacheNamespaces w platform =
     (case createSecretCacheConfig w platform of Inl err \<Rightarrow> {} | Inr m \<Rightarrow> dom m)"

definition generalCacheNamespaces :: "world \<Rightarrow> Platform \<Rightarrow> string set" where
  "generalCacheNamespaces w platform =
     (case createODHGeneralCacheConfig w platform of Inl err \<Rightarrow> {} | Inr m \<Rightarrow> dom m)"

text \<open>The calls of a trace, without the log lines.\<close>

fun calls :: "event list \<Rightarrow> call list" where
  "calls [] = []"
| "calls (Call c # t) = c # calls t"
| "calls (Logged l # t) = calls t"

text \<open>
  Where a call stands: \<open>site\<close> numbers the call sites of \<^verbatim>\<open>Setup\<close> in the order of the
  source text (the calls of the entry point before and after them), and \<open>step_of\<close>
  gives the step of the specification's list of nine that the call belongs to (0 before
  \<^verbatim>\<open>Setup\<close>, 10 for \<^verbatim>\<open>Start\<close>).
\<close>

fun site :: "call \<Rightarrow> nat" where
  "site c_LoadConfig = 0"
| "site c_Create = 0"
| "site c_Setup = 0"
| "site c_client_New = 1"
| "site c_cluster_Init = 2"
| "site (c_Init_service n) = 3"
| "site (c_Init_component n) = 4"
| "site c_createSecretCacheConfig = 5"
| "site c_createODHGeneralCacheConfig = 6"
| "site c_GetConfigOrDie = 7"
| "site c_NewManager = 8"
| "site c_RegisterAllWebhooks = 9"
| "site c_DSCI_SetupWithManager = 10"
| "site c_NewDataScienceClusterReconciler = 11"
| "site (c_NewReconciler_service n) = 12"
| "site (c_NewComponentReconciler n) = 13"
| "site (c_mgr_Add r) = 14"
| "site (c_AddHealthzCheck n) = 15"
| "site (c_AddReadyzCheck n) = 16"
| "site c_Start = 17"
| "site c_mgr_Start = 17"

fun step_of :: "call \<Rightarrow> nat" where
  "step_of c_LoadConfig = 0"
| "step_of c_Create = 0"
| "step_of c_Setup = 0"
| "step_of c_client_New = 1"
| "step_of c_cluster_Init = 1"
| "step_of (c_Init_service n) = 2"
| "step_of (c_Init_component n) = 2"
| "step_of c_createSecretCacheConfig = 3"
| "step_of c_createODHGeneralCacheConfig = 3"
| "step_of c_GetConfigOrDie = 4"
| "step_of c_NewManager = 4"
| "step_of c_RegisterAllWebhooks = 5"
| "step_of c_DSCI_SetupWithManager = 6"
| "step_of c_NewDataScienceClusterReconciler = 6"
| "step_of (c_NewReconciler_service n) = 7"
| "step_of (c_NewComponentReconciler n) = 7"
| "step_of (c_mgr_Add r) = 8"
| "step_of (c_AddHealthzCheck n) = 9"
| "step_of (c_AddReadyzCheck n) = 9"
| "step_of c_Start = 10"
| "step_of c_mgr_Start = 10"

text \<open>
  The step that an error of \<^verbatim>\<open>Setup\<close> names: the messages of the source's
  \<^verbatim>\<open>fmt.Errorf\<close> calls, by step (0 for any other message).
\<close>

definition step_of_message :: "string \<Rightarrow> nat" where
  "step_of_message p =
     (if p = ''error getting client for setup: '' \<or> p = ''unable to initialize cluster config: '' then 1
      else if p = ''unable to init services: '' \<or> p = ''unable to init components: '' then 2
      else if p = ''unable to get application namespace into cache: '' then 3
      else if p = ''unable to start manager: '' then 4
      else if p = ''unable to register webhooks: '' then 5
      else if p = ''unable to create controller DSCInitialization: ''
              \<or> p = ''unable to create controller DataScienceCluster: '' then 6
      else if p = ''unable to create service controllers: ''
              \<or> p = ''unable to create component controllers: '' then 7
      else if p = ''error scheduling DSCI creation: '' \<or> p = ''error scheduling DSC creation: '' then 8
      else if p = ''unable to set up health check: '' \<or> p = ''unable to set up ready check: '' then 9
      else 0)"

fun failed_step :: "error \<Rightarrow> nat" where
  "failed_step (errorString s) = 0"
| "failed_step (wrapError p e) = step_of_message p"

text \<open>
  The specification's reading of \<^verbatim>\<open>Setup\<close>, to compare the code with. It is written
  from what the collaborators answer and not from the functions above. A plan lists the
  calls of the nine steps in the order of the specification's list, each with its effect
  on the run: the run proceeds, or it is aborted with an error, or the process ends.
  Running a plan makes the calls in order, up to and including the first one that does
  not proceed; the run returns nil when every call proceeds.
\<close>

datatype effect = Proceeds | Aborts error | Exits nat

fun run_plan :: "(call \<times> effect) list \<Rightarrow> error option outcome \<times> call list" where
  "run_plan [] = (Return None, [])"
| "run_plan ((c, Proceeds) # plan) = (case run_plan plan of (r, cs) \<Rightarrow> (r, c # cs))"
| "run_plan ((c, Aborts e) # plan) = (Return (Some e), [c])"
| "run_plan ((c, Exits n) # plan) = (Exit n, [c])"

text \<open>
  A call that returns an error aborts the run with that error wrapped with the message
  that identifies the step.
\<close>

definition abort_with :: "string \<Rightarrow> error option \<Rightarrow> effect" where
  "abort_with msg r = (case r of None \<Rightarrow> Proceeds | Some err \<Rightarrow> Aborts (Errorf_w msg err))"

text \<open>The error of a handler, as a pass over a registry reports it: under the handler's name.\<close>

definition named :: "string \<Rightarrow> error option \<Rightarrow> error option" where
  "named n r = map_option (Errorf_w (n @ '': '')) r"

text \<open>
  The startup tasks: the task that creates the default DSCI unless the opt-out variable
  is set to something other than \<^verbatim>\<open>false\<close>, the task that creates the default DSC on the
  managed platform, and the cleanup task, whose registration never aborts the run.
\<close>

definition startup_plan :: "world \<Rightarrow> Config \<Rightarrow> Client \<Rightarrow> Platform \<Rightarrow> (call \<times> effect) list" where
  "startup_plan w cfg setupClient platform =
     (let dsci = leaderElectionRunnableFunc (createDefaultDSCIFunc w cfg setupClient platform);
          dsc = leaderElectionRunnableFunc (createDefaultDSCFunc w setupClient);
          upgrade = leaderElectionRunnableFunc (cleanup w setupClient) in
      (if environ w ''DISABLE_DSC_CONFIG'' = None \<or> environ w ''DISABLE_DSC_CONFIG'' = Some ''false''
       then [(c_mgr_Add dsci, abort_with ''error scheduling DSCI creation: '' (mgr_Add_res w dsci))]
       else []) @
      (if platform = ManagedRhoai w
       then [(c_mgr_Add dsc, abort_with ''error scheduling DSC creation: '' (mgr_Add_res w dsc))]
       else []) @
      [(c_mgr_Add upgrade, Proceeds)])"

definition Setup_plan :: "world \<Rightarrow> mainOperator \<Rightarrow> (call \<times> effect) list" where
  "Setup_plan w op =
     (let platform = GetRelease_Name w;
          setupClient = Client (RestConfig (config op)) (scheme op);
          operatorNamespace = (case GetOperatorNamespace_res w of Inl err \<Rightarrow> Some err | Inr ns \<Rightarrow> None) in
      [(c_client_New, abort_with ''error getting client for setup: '' (client_New_res w)),
       (c_cluster_Init, abort_with ''unable to initialize cluster config: '' (cluster_Init_res w))] @
      map (\<lambda>sh. (c_Init_service (sh_GetName sh),
                 abort_with ''unable to init services: '' (named (sh_GetName sh) (sh_Init sh platform))))
        (service_registry w) @
      map (\<lambda>ch. (c_Init_component (ch_GetName ch),
                 abort_with ''unable to init components: '' (named (ch_GetName ch) (ch_Init ch platform))))
        (component_registry w) @
      [(c_createSecretCacheConfig,
        abort_with ''unable to get application namespace into cache: '' operatorNamespace),
       (c_createODHGeneralCacheConfig,
        abort_with ''unable to get application namespace into cache: '' operatorNamespace),
       (c_GetConfigOrDie, (case GetConfigOrDie_res w of None \<Rightarrow> Exits 1 | Some restConfig \<Rightarrow> Proceeds)),
       (c_NewManager, abort_with ''unable to start manager: '' (NewManager_res w)),
       (c_RegisterAllWebhooks, abort_with ''unable to register webhooks: '' (RegisterAllWebhooks_res w)),
       (c_DSCI_SetupWithManager,
        abort_with ''unable to create controller DSCInitialization: '' (DSCI_SetupWithManager_res w)),
       (c_NewDataScienceClusterReconciler,
        abort_with ''unable to create controller DataScienceCluster: ''
          (NewDataScienceClusterReconciler_res w))] @
      map (\<lambda>sh. (c_NewReconciler_service (sh_GetName sh),
                 abort_with ''unable to create service controllers: ''
                   (named (sh_GetName sh)
                      (map_option (Errorf_w (''error creating '' @ sh_GetName sh @ '' service reconciler: ''))
                         (sh_NewReconciler sh)))))
        (service_registry w) @
      map (\<lambda>ch. (c_NewComponentReconciler (ch_GetName ch),
                 abort_with ''unable to create component controllers: ''
                   (named (ch_GetName ch)
                      (map_option (Errorf_w (''error creating '' @ ch_GetName ch @ '' component reconciler: ''))
                         (ch_NewComponentReconciler ch)))))
        (component_registry w) @
      startup_plan w (config op) setupClient platform @
      [(c_AddHealthzCheck ''healthz'', abort_with ''unable to set up health check: '' (AddHealthzCheck_res w)),
       (c_AddReadyzCheck ''readyz'', abort_with ''unable to set up ready check: '' (AddReadyzCheck_res w))])"

subsection \<open>Concrete inputs\<close>

definition example_Config :: Config where
  "example_Config =
     \<lparr>RestConfig = ''https://api.cluster.example:6443'', MetricsAddr = '':8080'',
      PprofAddr = [], HealthProbeAddr = '':8081'', LeaderElection = True,
      MonitoringNamespace = ''opendatahub''\<rparr>"

definition example_Object :: Object where
  "example_Object =
     \<lparr>obj_kind = ''Deployment'', obj_name = ''odh-dashboard'',
      managedFields = Some [''kube-controller-manager'', ''opendatahub-operator'']\<rparr>"

definition example_Context :: Context where
  "example_Context = IntoContext SignalHandler ''setup''"

definition example_Client :: Client where
  "example_Client = Client (RestConfig example_Config) (scheme (New example_Config))"

text \<open>
  A world in which every collaborator succeeds: Open Data Hub on a reachable cluster,
  one service handler and one component handler, the opt-out variable absent.
\<close>

definition example_world :: world where
  "example_world =
     \<lparr>environ = Map.empty,
      LoadConfig_res = Inr example_Config,
      client_New_res = None,
      cluster_Init_res = None,
      GetRelease_Name = ''Open Data Hub'',
      ManagedRhoai = ''OpenShift AI Cloud Service'',
      NamespaceConsoleLink = ''openshift-console'',
      ClusterAuthenticationObj = ''cluster'',
      GetOperatorNamespace_res = Inr ''opendatahub-operator-system'',
      GetApplicationNamespace_res = ''opendatahub'',
      service_registry =
        [\<lparr>sh_GetName = ''monitoring'', sh_Init = (\<lambda>p. None), sh_NewReconciler = None\<rparr>],
      component_registry =
        [\<lparr>ch_GetName = ''dashboard'', ch_Init = (\<lambda>p. None), ch_NewComponentReconciler = None\<rparr>],
      GetConfigOrDie_res = Some ''https://api.cluster.example:6443'',
      NewManager_res = None,
      RegisterAllWebhooks_res = None,
      DSCI_SetupWithManager_res = None,
      NewDataScienceClusterReconciler_res = None,
      mgr_Add_res = (\<lambda>r. None),
      AddHealthzCheck_res = None,
      AddReadyzCheck_res = None,
      mgr_Start_res = None,
      CreateDefaultDSCI_res = None,
      CreateDefaultDSC_res = None,
      CleanupExistingResource_res = None\<rparr>"

definition example_Manager :: Manager where
  "example_Manager =
     manager_New (managerOptions example_Config (scheme (New example_Config))
       (cacheOptions example_world (scheme (New example_Config)) Map.empty Map.empty))"

text \<open>The worlds of the examples: what differs from \<open>example_world\<close>.\<close>

definition world_empty_toggle :: world where
  "world_empty_toggle = example_world\<lparr>environ := [''DISABLE_DSC_CONFIG'' \<mapsto> []]\<rparr>"

definition world_false_toggle :: world where
  "world_false_toggle = example_world\<lparr>environ := [''DISABLE_DSC_CONFIG'' \<mapsto> ''false'']\<rparr>"

definition world_refusing_tasks :: world where
  "world_refusing_tasks = example_world\<lparr>mgr_Add_res := (\<lambda>r. Some (errorString ''runnable refused''))\<rparr>"

definition world_refusing_cleanup :: world where
  "world_refusing_cleanup =
     example_world\<lparr>environ := [''DISABLE_DSC_CONFIG'' \<mapsto> ''true''],
                   mgr_Add_res := (\<lambda>r. Some (errorString ''runnable refused''))\<rparr>"

definition world_refusing_cleanup_unhealthy :: world where
  "world_refusing_cleanup_unhealthy =
     world_refusing_cleanup\<lparr>AddHealthzCheck_res := Some (errorString ''no health endpoint'')\<rparr>"

definition world_no_webhooks :: world where
  "world_no_webhooks = example_world\<lparr>RegisterAllWebhooks_res := Some (errorString ''no certificate'')\<rparr>"

definition world_failing_service :: world where
  "world_failing_service =
     example_world\<lparr>service_registry :=
       [\<lparr>sh_GetName = ''monitoring'', sh_Init = (\<lambda>p. None), sh_NewReconciler = None\<rparr>,
        \<lparr>sh_GetName = ''auth'', sh_Init = (\<lambda>p. Some (errorString ''no auth'')), sh_NewReconciler = None\<rparr>,
        \<lparr>sh_GetName = ''gateway'', sh_Init = (\<lambda>p. None), sh_NewReconciler = None\<rparr>]\<rparr>"

definition world_no_operator_namespace :: world where
  "world_no_operator_namespace =
     example_world\<lparr>GetOperatorNamespace_res := Inl (errorString ''unable to find operator namespace'')\<rparr>"

definition world_no_application_namespace :: world where
  "world_no_application_namespace = example_world\<lparr>GetApplicationNamespace_res := []\<rparr>"

section \<open>Properties\<close>

subsection \<open>The factory\<close>

text \<open>
  C2. \<^verbatim>\<open>Factory.Create\<close>: the kind \<^verbatim>\<open>"main"\<close> yields the operator that \<^verbatim>\<open>New\<close> builds from
  the factory's configuration, with no manager yet, and no error; the kind
  \<^verbatim>\<open>"cloud-manager"\<close> yields the not-implemented error; every other value yields the
  unknown-kind error, whose message ends with that value; and an operator is returned
  for \<^verbatim>\<open>"main"\<close> only.
\<close>

theorem Create_by_kind:
  "Create f ''main'' = Inr (New (factory_config f)) \<and>
   mgr (New (factory_config f)) = None \<and>
   config (New (factory_config f)) = factory_config f \<and>
   Create f ''cloud-manager'' = Inl (errors_New ''cloud-manager operator not yet implemented'') \<and>
   (t \<noteq> ''main'' \<and> t \<noteq> ''cloud-manager'' \<longrightarrow>
      Create f t = Inl (Errorf_s ''unknown operator type: '' t) \<and>
      Error (Errorf_s ''unknown operator type: '' t) = ''unknown operator type: '' @ t) \<and>
   ((\<exists>op. Create f t = Inr op) \<longleftrightarrow> t = ''main'')"
  by (simp add: Create_def OperatorTypeMain_def OperatorTypeCloudManager_def New_def Errorf_s_def)

theorem Create_by_kind_witness:
  "''bogus'' \<noteq> ''main'' \<and> ''bogus'' \<noteq> ''cloud-manager'' \<and>
   Create (NewFactory example_Config) ''bogus'' = Inl (errorString ''unknown operator type: bogus'')"
  using Create_by_kind [of "NewFactory example_Config" "''bogus''"]
  by (simp add: Errorf_s_def)

subsection \<open>The startup-task wrapper\<close>

text \<open>
  C8. Whatever function is wrapped, the wrapper reports that it needs leader election,
  and starting it with a context is the wrapped function applied to that context:
  the same actions and the same result.
\<close>

theorem wrapper_needs_leader:
  "NeedLeaderElection (leaderElectionRunnableFunc fn) = True \<and>
   wrapper_Start (leaderElectionRunnableFunc fn) ctx = fn ctx"
  by (simp add: NeedLeaderElection_def wrapper_Start_def leaderElectionRunnableFunc_def)

subsection \<open>The object-mutation hook\<close>

lemma DefaultTransform_result: "fst (DefaultTransform v s) = (v, None)"
  by (simp add: DefaultTransform_def split: sum.splits)

lemma DefaultTransform_store:
  "snd (DefaultTransform v s) =
     (case v of ObjectPtr a \<Rightarrow> s(a := (s a)\<lparr>managedFields := None\<rparr>) | _ \<Rightarrow> s)"
  by (cases v)
     (auto simp: DefaultTransform_def meta_Accessor_def GetManagedFields_def SetManagedFields_def fun_eq_iff)

text \<open>
  C10. The hook returns the value it was given and a nil error, for every input. When
  the input points to an object, that object has no managed fields afterwards and is
  otherwise as before, and no other object of the store changes; an object whose managed
  fields are nil already, and an input that is no object, leave the store as it was.
\<close>

theorem DefaultTransform_total:
  "fst (DefaultTransform v s) = (v, None) \<and>
   (v = ObjectPtr a \<longrightarrow>
      snd (DefaultTransform v s) a = (s a)\<lparr>managedFields := None\<rparr> \<and>
      (\<forall>b. b \<noteq> a \<longrightarrow> snd (DefaultTransform v s) b = s b)) \<and>
   (v = ObjectPtr a \<and> managedFields (s a) = None \<longrightarrow> snd (DefaultTransform v s) = s) \<and>
   ((\<forall>b. v \<noteq> ObjectPtr b) \<longrightarrow> snd (DefaultTransform v s) = s)"
  by (cases v) (auto simp: DefaultTransform_result DefaultTransform_store fun_eq_iff)

theorem DefaultTransform_total_witness:
  "fst (DefaultTransform (ObjectPtr 7) (\<lambda>a. example_Object)) = (ObjectPtr 7, None) \<and>
   managedFields (snd (DefaultTransform (ObjectPtr 7) (\<lambda>a. example_Object)) 7) = None \<and>
   obj_name (snd (DefaultTransform (ObjectPtr 7) (\<lambda>a. example_Object)) 7) = ''odh-dashboard'' \<and>
   snd (DefaultTransform (ObjectPtr 7) (\<lambda>a. example_Object)) 8 = example_Object \<and>
   snd (DefaultTransform (NotObject ''tombstone'') (\<lambda>a. example_Object)) = (\<lambda>a. example_Object) \<and>
   snd (DefaultTransform (ObjectPtr 7) (\<lambda>a. example_Object\<lparr>managedFields := None\<rparr>))
     = (\<lambda>a. example_Object\<lparr>managedFields := None\<rparr>)"
  using DefaultTransform_total [of "ObjectPtr 7" "\<lambda>a. example_Object" 7]
        DefaultTransform_total [of "NotObject ''tombstone''" "\<lambda>a. example_Object" 7]
        DefaultTransform_total [of "ObjectPtr 7" "\<lambda>a. example_Object\<lparr>managedFields := None\<rparr>" 7]
  by (simp add: example_Object_def)


subsection \<open>The cache namespace sets\<close>

lemma example_world_simps [simp]:
  "environ example_world = Map.empty"
  "LoadConfig_res example_world = Inr example_Config"
  "client_New_res example_world = None"
  "cluster_Init_res example_world = None"
  "GetRelease_Name example_world = ''Open Data Hub''"
  "ManagedRhoai example_world = ''OpenShift AI Cloud Service''"
  "NamespaceConsoleLink example_world = ''openshift-console''"
  "ClusterAuthenticationObj example_world = ''cluster''"
  "GetOperatorNamespace_res example_world = Inr ''opendatahub-operator-system''"
  "GetApplicationNamespace_res example_world = ''opendatahub''"
  "service_registry example_world =
     [\<lparr>sh_GetName = ''monitoring'', sh_Init = (\<lambda>p. None), sh_NewReconciler = None\<rparr>]"
  "component_registry example_world =
     [\<lparr>ch_GetName = ''dashboard'', ch_Init = (\<lambda>p. None), ch_NewComponentReconciler = None\<rparr>]"
  "GetConfigOrDie_res example_world = Some ''https://api.cluster.example:6443''"
  "NewManager_res example_world = None"
  "RegisterAllWebhooks_res example_world = None"
  "DSCI_SetupWithManager_res example_world = None"
  "NewDataScienceClusterReconciler_res example_world = None"
  "mgr_Add_res example_world = (\<lambda>r. None)"
  "AddHealthzCheck_res example_world = None"
  "AddReadyzCheck_res example_world = None"
  "mgr_Start_res example_world = None"
  "CreateDefaultDSCI_res example_world = None"
  "CreateDefaultDSC_res example_world = None"
  "CleanupExistingResource_res example_world = None"
  by (simp_all add: example_world_def)

lemma createSecretCacheConfig_Inl:
  "GetOperatorNamespace_res w = Inl e \<Longrightarrow> createSecretCacheConfig w p = Inl e"
  by (simp add: createSecretCacheConfig_def getCommonCache_def)

lemma createODHGeneralCacheConfig_Inl:
  "GetOperatorNamespace_res w = Inl e \<Longrightarrow> createODHGeneralCacheConfig w p = Inl e"
  by (simp add: createODHGeneralCacheConfig_def getCommonCache_def)

lemma secretCacheNamespaces_eq:
  "GetOperatorNamespace_res w = Inr ns \<Longrightarrow>
   secretCacheNamespaces w p =
     {ns, ''redhat-ods-monitoring'', GetApplicationNamespace_res w, ''openshift-ingress''} \<union>
     (if p = ManagedRhoai w then {NamespaceConsoleLink w} else {})"
  by (auto simp: secretCacheNamespaces_def createSecretCacheConfig_def getCommonCache_def Let_def)

lemma generalCacheNamespaces_eq:
  "GetOperatorNamespace_res w = Inr ns \<Longrightarrow>
   generalCacheNamespaces w p =
     {ns, ''redhat-ods-monitoring'', GetApplicationNamespace_res w, ''openshift-ingress'',
      ''openshift-operators''} \<union>
     (if p = ManagedRhoai w then {NamespaceConsoleLink w} else {})"
  by (auto simp: generalCacheNamespaces_def createODHGeneralCacheConfig_def getCommonCache_def Let_def)

text \<open>
  C4, as the code has it. When the builders succeed: on the managed platform both
  namespace sets contain the console-link namespace; on any other platform a set
  contains it only if it is one of the namespaces the set has on every platform (the
  operator's, the monitoring one, the application's, the ingress one and, for the
  general set, the one of the extension operators).
\<close>

theorem console_link_in_caches:
  assumes "GetOperatorNamespace_res w = Inr ns"
  shows "(p = ManagedRhoai w \<longrightarrow>
            NamespaceConsoleLink w \<in> secretCacheNamespaces w p \<and>
            NamespaceConsoleLink w \<in> generalCacheNamespaces w p) \<and>
         (p \<noteq> ManagedRhoai w \<longrightarrow>
            (NamespaceConsoleLink w \<in> secretCacheNamespaces w p \<longleftrightarrow>
               NamespaceConsoleLink w \<in>
                 {ns, ''redhat-ods-monitoring'', GetApplicationNamespace_res w, ''openshift-ingress''}) \<and>
            (NamespaceConsoleLink w \<in> generalCacheNamespaces w p \<longleftrightarrow>
               NamespaceConsoleLink w \<in>
                 {ns, ''redhat-ods-monitoring'', GetApplicationNamespace_res w, ''openshift-ingress'',
                  ''openshift-operators''}))"
  using assms by (simp add: secretCacheNamespaces_eq generalCacheNamespaces_eq)

theorem console_link_in_caches_witness:
  "NamespaceConsoleLink example_world \<notin> secretCacheNamespaces example_world ''Open Data Hub'' \<and>
   NamespaceConsoleLink example_world \<notin> generalCacheNamespaces example_world ''Open Data Hub'' \<and>
   NamespaceConsoleLink example_world \<in> secretCacheNamespaces example_world ''OpenShift AI Cloud Service'' \<and>
   NamespaceConsoleLink example_world \<in> generalCacheNamespaces example_world ''OpenShift AI Cloud Service''"
  using console_link_in_caches [of example_world "''opendatahub-operator-system''" "''Open Data Hub''"]
        console_link_in_caches [of example_world "''opendatahub-operator-system''" "''OpenShift AI Cloud Service''"]
  by simp

text \<open>
  Against C4 as stated: Open Data Hub is not the managed platform, yet with the operator
  installed in the namespace \<^verbatim>\<open>openshift-console\<close> both sets contain the console-link
  namespace.
\<close>

theorem console_link_counterexample:
  "''Open Data Hub'' \<noteq> ManagedRhoai (example_world\<lparr>GetOperatorNamespace_res := Inr ''openshift-console''\<rparr>) \<and>
   NamespaceConsoleLink (example_world\<lparr>GetOperatorNamespace_res := Inr ''openshift-console''\<rparr>)
     \<in> secretCacheNamespaces (example_world\<lparr>GetOperatorNamespace_res := Inr ''openshift-console''\<rparr>) ''Open Data Hub'' \<and>
   NamespaceConsoleLink (example_world\<lparr>GetOperatorNamespace_res := Inr ''openshift-console''\<rparr>)
     \<in> generalCacheNamespaces (example_world\<lparr>GetOperatorNamespace_res := Inr ''openshift-console''\<rparr>) ''Open Data Hub''"
  by (simp add: secretCacheNamespaces_eq generalCacheNamespaces_eq)

lemma generalCacheNamespaces_secret:
  assumes "GetOperatorNamespace_res w = Inr ns"
  shows "generalCacheNamespaces w p = secretCacheNamespaces w p \<union> {''openshift-operators''}"
  unfolding secretCacheNamespaces_eq [OF assms] generalCacheNamespaces_eq [OF assms]
  by blast

text \<open>
  C5, as the code has it. When the builders succeed, the secret-cache set is a subset of
  the general-cache set (and so of its union with the operator namespace), and the
  general-cache set is the secret-cache set with \<^verbatim>\<open>openshift-operators\<close> added: it has
  strictly more namespaces exactly when the secret-cache set does not hold that namespace
  already.
\<close>

theorem secret_within_general:
  assumes "GetOperatorNamespace_res w = Inr ns"
  shows "secretCacheNamespaces w p \<subseteq> generalCacheNamespaces w p \<and>
         secretCacheNamespaces w p \<subseteq> generalCacheNamespaces w p \<union> {ns} \<and>
         generalCacheNamespaces w p = secretCacheNamespaces w p \<union> {''openshift-operators''} \<and>
         (secretCacheNamespaces w p \<subset> generalCacheNamespaces w p \<longleftrightarrow>
            ''openshift-operators'' \<notin> secretCacheNamespaces w p)"
  unfolding generalCacheNamespaces_secret [OF assms] by blast

theorem secret_within_general_witness:
  "secretCacheNamespaces example_world ''Open Data Hub'' \<subset> generalCacheNamespaces example_world ''Open Data Hub'' \<and>
   generalCacheNamespaces example_world ''Open Data Hub''
     = secretCacheNamespaces example_world ''Open Data Hub'' \<union> {''openshift-operators''}"
proof -
  have ns: "GetOperatorNamespace_res example_world = Inr ''opendatahub-operator-system''"
    by simp
  note th = secret_within_general [OF ns, of "''Open Data Hub''"]
  have notin: "''openshift-operators'' \<notin> secretCacheNamespaces example_world ''Open Data Hub''"
    by (simp add: secretCacheNamespaces_eq [OF ns])
  have "secretCacheNamespaces example_world ''Open Data Hub'' \<subset> generalCacheNamespaces example_world ''Open Data Hub''"
    using th [THEN conjunct2, THEN conjunct2, THEN conjunct2] notin by (rule iffD2)
  then show ?thesis
    using th [THEN conjunct2, THEN conjunct2, THEN conjunct1] by (rule conjI)
qed

text \<open>
  Against C5 as stated: with the operator installed in \<^verbatim>\<open>openshift-operators\<close> the two
  sets are the same set, so the general-cache set does not have strictly more namespaces.
\<close>

theorem general_not_larger_counterexample:
  "secretCacheNamespaces (example_world\<lparr>GetOperatorNamespace_res := Inr ''openshift-operators''\<rparr>) ''Open Data Hub''
     = generalCacheNamespaces (example_world\<lparr>GetOperatorNamespace_res := Inr ''openshift-operators''\<rparr>) ''Open Data Hub''"
proof -
  have ns: "GetOperatorNamespace_res (example_world\<lparr>GetOperatorNamespace_res := Inr ''openshift-operators''\<rparr>)
              = Inr ''openshift-operators''"
    by simp
  have "''openshift-operators''
          \<in> secretCacheNamespaces (example_world\<lparr>GetOperatorNamespace_res := Inr ''openshift-operators''\<rparr>) ''Open Data Hub''"
    unfolding secretCacheNamespaces_eq [OF ns] by (rule UnI1) (rule insertI1)
  then show ?thesis
    unfolding generalCacheNamespaces_secret [OF ns] by (simp add: insert_absorb)
qed

subsection \<open>Traces of the registrar and the case analysis of Setup\<close>

lemma calls_append [simp]: "calls (a @ b) = calls a @ calls b"
  by (induction a rule: calls.induct) simp_all

lemma Call_in_set_iff: "Call c \<in> set t \<longleftrightarrow> c \<in> set (calls t)"
  by (induction t rule: calls.induct) auto

lemma same_key_sorted: "\<forall>c\<in>set cs. f c = (k::nat) \<Longrightarrow> sorted (map f cs)"
  by (induction cs) auto

lemma ForEach_calls_all:
  assumes "\<And>h. \<forall>c\<in>set (calls (snd (fn h))). P c"
  shows "\<forall>c\<in>set (calls (snd (ForEach nm hs fn))). P c"
proof (induction hs)
  case Nil
  show ?case by simp
next
  case (Cons h hs)
  from assms [of h] Cons show ?case
    by (auto split: prod.splits option.splits)
qed

lemma ForEach_failure_calls:
  assumes "\<And>h. calls (snd (fn h)) \<noteq> []"
  shows "fst (ForEach nm hs fn) = Some e \<Longrightarrow> calls (snd (ForEach nm hs fn)) \<noteq> []"
proof (induction hs)
  case Nil
  then show ?case by simp
next
  case (Cons h hs)
  from assms [of h] Cons show ?case
    by (auto split: prod.splits option.splits)
qed

lemma ForEach_success_calls:
  "fst (ForEach nm hs fn) = None \<Longrightarrow>
   calls (snd (ForEach nm hs fn)) = concat (map (\<lambda>h. calls (snd (fn h))) hs)"
  by (induction hs) (auto split: prod.splits option.splits)

lemma same_key_replicate: "\<forall>c\<in>set cs. f c = k \<Longrightarrow> map f cs = replicate (length cs) k"
  by (induction cs) auto

text \<open>
  What a pass over a registry leaves in the trace, when every handler contributes calls
  of one site \<open>k\<close> and one step \<open>j\<close>, and at least one.
\<close>

lemma ForEach_D:
  assumes eq: "ForEach nm hs fn = (r, t)"
    and site: "\<And>h. \<forall>c\<in>set (calls (snd (fn h))). site c = k"
    and step: "\<And>h. \<forall>c\<in>set (calls (snd (fn h))). step_of c = j"
    and ne: "\<And>h. calls (snd (fn h)) \<noteq> []"
  shows "map site (calls t) = replicate (length (calls t)) k \<and>
         map step_of (calls t) = replicate (length (calls t)) j \<and>
         (r \<noteq> None \<longrightarrow> calls t \<noteq> [] \<and> step_of (last (calls t)) = j)"
proof -
  have "\<forall>c\<in>set (calls (snd (ForEach nm hs fn))). site c = k"
    by (rule ForEach_calls_all) (rule site)
  then have a: "\<forall>c\<in>set (calls t). site c = k"
    by (simp add: eq)
  have "\<forall>c\<in>set (calls (snd (ForEach nm hs fn))). step_of c = j"
    by (rule ForEach_calls_all) (rule step)
  then have b: "\<forall>c\<in>set (calls t). step_of c = j"
    by (simp add: eq)
  have c: "calls t \<noteq> []" if "r \<noteq> None"
  proof -
    from that obtain e where "fst (ForEach nm hs fn) = Some e"
      by (auto simp: eq)
    then have "calls (snd (ForEach nm hs fn)) \<noteq> []"
      by (rule ForEach_failure_calls [rotated]) (rule ne)
    then show ?thesis by (simp add: eq)
  qed
  have d: "step_of (last (calls t)) = j" if "r \<noteq> None"
    using c [OF that] b last_in_set [of "calls t"] by blast
  from c d same_key_replicate [OF a] same_key_replicate [OF b] show ?thesis
    by blast
qed

lemma ForEach_notin:
  assumes eq: "ForEach nm hs fn = (r, t)"
    and site: "\<And>h. \<forall>c\<in>set (calls (snd (fn h))). site c = k"
  shows "\<forall>c. site c \<noteq> k \<longrightarrow> c \<notin> set (calls t)"
proof -
  have "\<forall>c\<in>set (calls (snd (ForEach nm hs fn))). site c = k"
    by (rule ForEach_calls_all) (rule site)
  then show ?thesis
    by (auto simp: eq)
qed

lemma ForEach_ok:
  assumes eq: "ForEach nm hs fn = (None, t)"
    and one: "\<And>h. calls (snd (fn h)) = [g h]"
  shows "calls t = map g hs"
proof -
  from eq have "fst (ForEach nm hs fn) = None" by simp
  then have "calls (snd (ForEach nm hs fn)) = concat (map (\<lambda>h. calls (snd (fn h))) hs)"
    by (rule ForEach_success_calls)
  then show ?thesis by (simp add: eq one)
qed

lemma initServices_D:
  assumes "initServices w ctx p = (r, t)"
  shows "map site (calls t) = replicate (length (calls t)) 3 \<and>
         map step_of (calls t) = replicate (length (calls t)) 2 \<and>
         (r \<noteq> None \<longrightarrow> calls t \<noteq> [] \<and> step_of (last (calls t)) = 2)"
  using assms unfolding initServices_def sr_ForEach_def
  by (rule ForEach_D) simp_all

lemma initServices_notin:
  assumes "initServices w ctx p = (r, t)"
  shows "\<forall>c. site c \<noteq> 3 \<longrightarrow> c \<notin> set (calls t)"
  using assms unfolding initServices_def sr_ForEach_def
  by (rule ForEach_notin) simp_all

lemma initComponents_D:
  assumes "initComponents w ctx p = (r, t)"
  shows "map site (calls t) = replicate (length (calls t)) 4 \<and>
         map step_of (calls t) = replicate (length (calls t)) 2 \<and>
         (r \<noteq> None \<longrightarrow> calls t \<noteq> [] \<and> step_of (last (calls t)) = 2)"
  using assms unfolding initComponents_def cr_ForEach_def
  by (rule ForEach_D) simp_all

lemma initComponents_notin:
  assumes "initComponents w ctx p = (r, t)"
  shows "\<forall>c. site c \<noteq> 4 \<longrightarrow> c \<notin> set (calls t)"
  using assms unfolding initComponents_def cr_ForEach_def
  by (rule ForEach_notin) simp_all

lemma createServiceReconcilers_D:
  assumes "createServiceReconcilers w m ctx = (r, t)"
  shows "map site (calls t) = replicate (length (calls t)) 12 \<and>
         map step_of (calls t) = replicate (length (calls t)) 7 \<and>
         (r \<noteq> None \<longrightarrow> calls t \<noteq> [] \<and> step_of (last (calls t)) = 7)"
  using assms unfolding createServiceReconcilers_def sr_ForEach_def
  by (rule ForEach_D) (simp_all add: Let_def split: option.splits)

lemma createServiceReconcilers_notin:
  assumes "createServiceReconcilers w m ctx = (r, t)"
  shows "\<forall>c. site c \<noteq> 12 \<longrightarrow> c \<notin> set (calls t)"
  using assms unfolding createServiceReconcilers_def sr_ForEach_def
  by (rule ForEach_notin) (simp_all add: Let_def split: option.splits)

lemma createComponentReconcilers_D:
  assumes "createComponentReconcilers w m ctx = (r, t)"
  shows "map site (calls t) = replicate (length (calls t)) 13 \<and>
         map step_of (calls t) = replicate (length (calls t)) 7 \<and>
         (r \<noteq> None \<longrightarrow> calls t \<noteq> [] \<and> step_of (last (calls t)) = 7)"
  using assms unfolding createComponentReconcilers_def cr_ForEach_def
  by (rule ForEach_D) (simp_all add: Let_def split: option.splits)

lemma createComponentReconcilers_notin:
  assumes "createComponentReconcilers w m ctx = (r, t)"
  shows "\<forall>c. site c \<noteq> 13 \<longrightarrow> c \<notin> set (calls t)"
  using assms unfolding createComponentReconcilers_def cr_ForEach_def
  by (rule ForEach_notin) (simp_all add: Let_def split: option.splits)

lemma initServices_ok:
  assumes "initServices w ctx p = (None, t)"
  shows "calls t = map (\<lambda>sh. c_Init_service (sh_GetName sh)) (service_registry w)"
  using assms unfolding initServices_def sr_ForEach_def
  by (rule ForEach_ok) simp_all

lemma initComponents_ok:
  assumes "initComponents w ctx p = (None, t)"
  shows "calls t = map (\<lambda>ch. c_Init_component (ch_GetName ch)) (component_registry w)"
  using assms unfolding initComponents_def cr_ForEach_def
  by (rule ForEach_ok) simp_all

lemma createServiceReconcilers_ok:
  assumes "createServiceReconcilers w m ctx = (None, t)"
  shows "calls t = map (\<lambda>sh. c_NewReconciler_service (sh_GetName sh)) (service_registry w)"
  using assms unfolding createServiceReconcilers_def sr_ForEach_def
  by (rule ForEach_ok) (simp_all add: Let_def split: option.splits)

lemma createComponentReconcilers_ok:
  assumes "createComponentReconcilers w m ctx = (None, t)"
  shows "calls t = map (\<lambda>ch. c_NewComponentReconciler (ch_GetName ch)) (component_registry w)"
  using assms unfolding createComponentReconcilers_def cr_ForEach_def
  by (rule ForEach_ok) (simp_all add: Let_def split: option.splits)

text \<open>
  Every execution of \<^verbatim>\<open>Setup\<close> is one of seventeen: it stops at one of its sixteen
  calls that can fail, or it runs to the end. Each case gives the results of the calls
  made, the operator as it is left, and the trace.
\<close>

lemma Setup_cases:
  obtains
    (client) err where
      "client_New_res w = Some err"
      and "Setup w op ctx = (Return (Some (Errorf_w ''error getting client for setup: '' err)), op, [Call c_client_New])"
  | (cluster) err where
      "client_New_res w = None"
      and "cluster_Init_res w = Some err"
      and "Setup w op ctx = (Return (Some (Errorf_w ''unable to initialize cluster config: '' err)), op, [Call c_client_New] @ [Call c_cluster_Init])"
  | (init_services) err t1 where
      "client_New_res w = None"
      and "cluster_Init_res w = None"
      and "initServices w ctx (GetRelease_Name w) = (Some err, t1)"
      and "Setup w op ctx = (Return (Some (Errorf_w ''unable to init services: '' err)), op, [Call c_client_New] @ [Call c_cluster_Init] @ t1)"
  | (init_components) t1 err t2 where
      "client_New_res w = None"
      and "cluster_Init_res w = None"
      and "initServices w ctx (GetRelease_Name w) = (None, t1)"
      and "initComponents w ctx (GetRelease_Name w) = (Some err, t2)"
      and "Setup w op ctx = (Return (Some (Errorf_w ''unable to init components: '' err)), op, [Call c_client_New] @ [Call c_cluster_Init] @ t1 @ t2)"
  | (secret_cache) t1 t2 err where
      "client_New_res w = None"
      and "cluster_Init_res w = None"
      and "initServices w ctx (GetRelease_Name w) = (None, t1)"
      and "initComponents w ctx (GetRelease_Name w) = (None, t2)"
      and "createSecretCacheConfig w (GetRelease_Name w) = Inl err"
      and "Setup w op ctx = (Return (Some (Errorf_w ''unable to get application namespace into cache: '' err)), op, [Call c_client_New] @ [Call c_cluster_Init] @ t1 @ t2 @ [Call c_createSecretCacheConfig])"
  | (general_cache) t1 t2 sc err where
      "client_New_res w = None"
      and "cluster_Init_res w = None"
      and "initServices w ctx (GetRelease_Name w) = (None, t1)"
      and "initComponents w ctx (GetRelease_Name w) = (None, t2)"
      and "createSecretCacheConfig w (GetRelease_Name w) = Inr sc"
      and "createODHGeneralCacheConfig w (GetRelease_Name w) = Inl err"
      and "Setup w op ctx = (Return (Some (Errorf_w ''unable to get application namespace into cache: '' err)), op, [Call c_client_New] @ [Call c_cluster_Init] @ t1 @ t2 @ [Call c_createSecretCacheConfig] @ [Call c_createODHGeneralCacheConfig])"
  | (no_config) t1 t2 sc gc where
      "client_New_res w = None"
      and "cluster_Init_res w = None"
      and "initServices w ctx (GetRelease_Name w) = (None, t1)"
      and "initComponents w ctx (GetRelease_Name w) = (None, t2)"
      and "createSecretCacheConfig w (GetRelease_Name w) = Inr sc"
      and "createODHGeneralCacheConfig w (GetRelease_Name w) = Inr gc"
      and "GetConfigOrDie_res w = None"
      and "Setup w op ctx = (Exit 1, op, [Call c_client_New] @ [Call c_cluster_Init] @ t1 @ t2 @ [Call c_createSecretCacheConfig] @ [Call c_createODHGeneralCacheConfig] @ [Call c_GetConfigOrDie])"
  | (manager) t1 t2 sc gc rc err where
      "client_New_res w = None"
      and "cluster_Init_res w = None"
      and "initServices w ctx (GetRelease_Name w) = (None, t1)"
      and "initComponents w ctx (GetRelease_Name w) = (None, t2)"
      and "createSecretCacheConfig w (GetRelease_Name w) = Inr sc"
      and "createODHGeneralCacheConfig w (GetRelease_Name w) = Inr gc"
      and "GetConfigOrDie_res w = Some rc"
      and "NewManager_res w = Some err"
      and "Setup w op ctx = (Return (Some (Errorf_w ''unable to start manager: '' err)), op, [Call c_client_New] @ [Call c_cluster_Init] @ t1 @ t2 @ [Call c_createSecretCacheConfig] @ [Call c_createODHGeneralCacheConfig] @ [Call c_GetConfigOrDie] @ [Call c_NewManager])"
  | (webhooks) t1 t2 sc gc rc err where
      "client_New_res w = None"
      and "cluster_Init_res w = None"
      and "initServices w ctx (GetRelease_Name w) = (None, t1)"
      and "initComponents w ctx (GetRelease_Name w) = (None, t2)"
      and "createSecretCacheConfig w (GetRelease_Name w) = Inr sc"
      and "createODHGeneralCacheConfig w (GetRelease_Name w) = Inr gc"
      and "GetConfigOrDie_res w = Some rc"
      and "NewManager_res w = None"
      and "RegisterAllWebhooks_res w = Some err"
      and "Setup w op ctx = (Return (Some (Errorf_w ''unable to register webhooks: '' err)), op\<lparr>mgr := Some (manager_New (managerOptions (config op) (scheme op) (cacheOptions w (scheme op) sc gc)))\<rparr>, [Call c_client_New] @ [Call c_cluster_Init] @ t1 @ t2 @ [Call c_createSecretCacheConfig] @ [Call c_createODHGeneralCacheConfig] @ [Call c_GetConfigOrDie] @ [Call c_NewManager] @ [Call c_RegisterAllWebhooks])"
  | (dsci) t1 t2 sc gc rc err where
      "client_New_res w = None"
      and "cluster_Init_res w = None"
      and "initServices w ctx (GetRelease_Name w) = (None, t1)"
      and "initComponents w ctx (GetRelease_Name w) = (None, t2)"
      and "createSecretCacheConfig w (GetRelease_Name w) = Inr sc"
      and "createODHGeneralCacheConfig w (GetRelease_Name w) = Inr gc"
      and "GetConfigOrDie_res w = Some rc"
      and "NewManager_res w = None"
      and "RegisterAllWebhooks_res w = None"
      and "DSCI_SetupWithManager_res w = Some err"
      and "Setup w op ctx = (Return (Some (Errorf_w ''unable to create controller DSCInitialization: '' err)), op\<lparr>mgr := Some (manager_New (managerOptions (config op) (scheme op) (cacheOptions w (scheme op) sc gc)))\<rparr>, [Call c_client_New] @ [Call c_cluster_Init] @ t1 @ t2 @ [Call c_createSecretCacheConfig] @ [Call c_createODHGeneralCacheConfig] @ [Call c_GetConfigOrDie] @ [Call c_NewManager] @ [Call c_RegisterAllWebhooks] @ [Call c_DSCI_SetupWithManager])"
  | (dsc) t1 t2 sc gc rc err where
      "client_New_res w = None"
      and "cluster_Init_res w = None"
      and "initServices w ctx (GetRelease_Name w) = (None, t1)"
      and "initComponents w ctx (GetRelease_Name w) = (None, t2)"
      and "createSecretCacheConfig w (GetRelease_Name w) = Inr sc"
      and "createODHGeneralCacheConfig w (GetRelease_Name w) = Inr gc"
      and "GetConfigOrDie_res w = Some rc"
      and "NewManager_res w = None"
      and "RegisterAllWebhooks_res w = None"
      and "DSCI_SetupWithManager_res w = None"
      and "NewDataScienceClusterReconciler_res w = Some err"
      and "Setup w op ctx = (Return (Some (Errorf_w ''unable to create controller DataScienceCluster: '' err)), op\<lparr>mgr := Some (manager_New (managerOptions (config op) (scheme op) (cacheOptions w (scheme op) sc gc)))\<rparr>, [Call c_client_New] @ [Call c_cluster_Init] @ t1 @ t2 @ [Call c_createSecretCacheConfig] @ [Call c_createODHGeneralCacheConfig] @ [Call c_GetConfigOrDie] @ [Call c_NewManager] @ [Call c_RegisterAllWebhooks] @ [Call c_DSCI_SetupWithManager] @ [Call c_NewDataScienceClusterReconciler])"
  | (service_reconcilers) t1 t2 sc gc rc err t3 where
      "client_New_res w = None"
      and "cluster_Init_res w = None"
      and "initServices w ctx (GetRelease_Name w) = (None, t1)"
      and "initComponents w ctx (GetRelease_Name w) = (None, t2)"
      and "createSecretCacheConfig w (GetRelease_Name w) = Inr sc"
      and "createODHGeneralCacheConfig w (GetRelease_Name w) = Inr gc"
      and "GetConfigOrDie_res w = Some rc"
      and "NewManager_res w = None"
      and "RegisterAllWebhooks_res w = None"
      and "DSCI_SetupWithManager_res w = None"
      and "NewDataScienceClusterReconciler_res w = None"
      and "createServiceReconcilers w (manager_New (managerOptions (config op) (scheme op) (cacheOptions w (scheme op) sc gc))) ctx = (Some err, t3)"
      and "Setup w op ctx = (Return (Some (Errorf_w ''unable to create service controllers: '' err)), op\<lparr>mgr := Some (manager_New (managerOptions (config op) (scheme op) (cacheOptions w (scheme op) sc gc)))\<rparr>, [Call c_client_New] @ [Call c_cluster_Init] @ t1 @ t2 @ [Call c_createSecretCacheConfig] @ [Call c_createODHGeneralCacheConfig] @ [Call c_GetConfigOrDie] @ [Call c_NewManager] @ [Call c_RegisterAllWebhooks] @ [Call c_DSCI_SetupWithManager] @ [Call c_NewDataScienceClusterReconciler] @ t3)"
  | (component_reconcilers) t1 t2 sc gc rc t3 err t4 where
      "client_New_res w = None"
      and "cluster_Init_res w = None"
      and "initServices w ctx (GetRelease_Name w) = (None, t1)"
      and "initComponents w ctx (GetRelease_Name w) = (None, t2)"
      and "createSecretCacheConfig w (GetRelease_Name w) = Inr sc"
      and "createODHGeneralCacheConfig w (GetRelease_Name w) = Inr gc"
      and "GetConfigOrDie_res w = Some rc"
      and "NewManager_res w = None"
      and "RegisterAllWebhooks_res w = None"
      and "DSCI_SetupWithManager_res w = None"
      and "NewDataScienceClusterReconciler_res w = None"
      and "createServiceReconcilers w (manager_New (managerOptions (config op) (scheme op) (cacheOptions w (scheme op) sc gc))) ctx = (None, t3)"
      and "createComponentReconcilers w (manager_New (managerOptions (config op) (scheme op) (cacheOptions w (scheme op) sc gc))) ctx = (Some err, t4)"
      and "Setup w op ctx = (Return (Some (Errorf_w ''unable to create component controllers: '' err)), op\<lparr>mgr := Some (manager_New (managerOptions (config op) (scheme op) (cacheOptions w (scheme op) sc gc)))\<rparr>, [Call c_client_New] @ [Call c_cluster_Init] @ t1 @ t2 @ [Call c_createSecretCacheConfig] @ [Call c_createODHGeneralCacheConfig] @ [Call c_GetConfigOrDie] @ [Call c_NewManager] @ [Call c_RegisterAllWebhooks] @ [Call c_DSCI_SetupWithManager] @ [Call c_NewDataScienceClusterReconciler] @ t3 @ t4)"
  | (startup_tasks) t1 t2 sc gc rc t3 t4 err m1 t5 where
      "client_New_res w = None"
      and "cluster_Init_res w = None"
      and "initServices w ctx (GetRelease_Name w) = (None, t1)"
      and "initComponents w ctx (GetRelease_Name w) = (None, t2)"
      and "createSecretCacheConfig w (GetRelease_Name w) = Inr sc"
      and "createODHGeneralCacheConfig w (GetRelease_Name w) = Inr gc"
      and "GetConfigOrDie_res w = Some rc"
      and "NewManager_res w = None"
      and "RegisterAllWebhooks_res w = None"
      and "DSCI_SetupWithManager_res w = None"
      and "NewDataScienceClusterReconciler_res w = None"
      and "createServiceReconcilers w (manager_New (managerOptions (config op) (scheme op) (cacheOptions w (scheme op) sc gc))) ctx = (None, t3)"
      and "createComponentReconcilers w (manager_New (managerOptions (config op) (scheme op) (cacheOptions w (scheme op) sc gc))) ctx = (None, t4)"
      and "addStartupTasks w (config op) (manager_New (managerOptions (config op) (scheme op) (cacheOptions w (scheme op) sc gc))) ctx (Client (RestConfig (config op)) (scheme op)) (GetRelease_Name w) = (Some err, m1, t5)"
      and "Setup w op ctx = (Return (Some err), op\<lparr>mgr := Some m1\<rparr>, [Call c_client_New] @ [Call c_cluster_Init] @ t1 @ t2 @ [Call c_createSecretCacheConfig] @ [Call c_createODHGeneralCacheConfig] @ [Call c_GetConfigOrDie] @ [Call c_NewManager] @ [Call c_RegisterAllWebhooks] @ [Call c_DSCI_SetupWithManager] @ [Call c_NewDataScienceClusterReconciler] @ t3 @ t4 @ t5)"
  | (healthz) t1 t2 sc gc rc t3 t4 m1 t5 err where
      "client_New_res w = None"
      and "cluster_Init_res w = None"
      and "initServices w ctx (GetRelease_Name w) = (None, t1)"
      and "initComponents w ctx (GetRelease_Name w) = (None, t2)"
      and "createSecretCacheConfig w (GetRelease_Name w) = Inr sc"
      and "createODHGeneralCacheConfig w (GetRelease_Name w) = Inr gc"
      and "GetConfigOrDie_res w = Some rc"
      and "NewManager_res w = None"
      and "RegisterAllWebhooks_res w = None"
      and "DSCI_SetupWithManager_res w = None"
      and "NewDataScienceClusterReconciler_res w = None"
      and "createServiceReconcilers w (manager_New (managerOptions (config op) (scheme op) (cacheOptions w (scheme op) sc gc))) ctx = (None, t3)"
      and "createComponentReconcilers w (manager_New (managerOptions (config op) (scheme op) (cacheOptions w (scheme op) sc gc))) ctx = (None, t4)"
      and "addStartupTasks w (config op) (manager_New (managerOptions (config op) (scheme op) (cacheOptions w (scheme op) sc gc))) ctx (Client (RestConfig (config op)) (scheme op)) (GetRelease_Name w) = (None, m1, t5)"
      and "AddHealthzCheck_res w = Some err"
      and "Setup w op ctx = (Return (Some (Errorf_w ''unable to set up health check: '' err)), op\<lparr>mgr := Some m1\<rparr>, [Call c_client_New] @ [Call c_cluster_Init] @ t1 @ t2 @ [Call c_createSecretCacheConfig] @ [Call c_createODHGeneralCacheConfig] @ [Call c_GetConfigOrDie] @ [Call c_NewManager] @ [Call c_RegisterAllWebhooks] @ [Call c_DSCI_SetupWithManager] @ [Call c_NewDataScienceClusterReconciler] @ t3 @ t4 @ t5 @ [Call (c_AddHealthzCheck ''healthz'')])"
  | (readyz) t1 t2 sc gc rc t3 t4 m1 t5 err where
      "client_New_res w = None"
      and "cluster_Init_res w = None"
      and "initServices w ctx (GetRelease_Name w) = (None, t1)"
      and "initComponents w ctx (GetRelease_Name w) = (None, t2)"
      and "createSecretCacheConfig w (GetRelease_Name w) = Inr sc"
      and "createODHGeneralCacheConfig w (GetRelease_Name w) = Inr gc"
      and "GetConfigOrDie_res w = Some rc"
      and "NewManager_res w = None"
      and "RegisterAllWebhooks_res w = None"
      and "DSCI_SetupWithManager_res w = None"
      and "NewDataScienceClusterReconciler_res w = None"
      and "createServiceReconcilers w (manager_New (managerOptions (config op) (scheme op) (cacheOptions w (scheme op) sc gc))) ctx = (None, t3)"
      and "createComponentReconcilers w (manager_New (managerOptions (config op) (scheme op) (cacheOptions w (scheme op) sc gc))) ctx = (None, t4)"
      and "addStartupTasks w (config op) (manager_New (managerOptions (config op) (scheme op) (cacheOptions w (scheme op) sc gc))) ctx (Client (RestConfig (config op)) (scheme op)) (GetRelease_Name w) = (None, m1, t5)"
      and "AddHealthzCheck_res w = None"
      and "AddReadyzCheck_res w = Some err"
      and "Setup w op ctx = (Return (Some (Errorf_w ''unable to set up ready check: '' err)), op\<lparr>mgr := Some (m1\<lparr>healthzChecks := healthzChecks m1 @ [''healthz'']\<rparr>)\<rparr>, [Call c_client_New] @ [Call c_cluster_Init] @ t1 @ t2 @ [Call c_createSecretCacheConfig] @ [Call c_createODHGeneralCacheConfig] @ [Call c_GetConfigOrDie] @ [Call c_NewManager] @ [Call c_RegisterAllWebhooks] @ [Call c_DSCI_SetupWithManager] @ [Call c_NewDataScienceClusterReconciler] @ t3 @ t4 @ t5 @ [Call (c_AddHealthzCheck ''healthz'')] @ [Call (c_AddReadyzCheck ''readyz'')])"
  | (success) t1 t2 sc gc rc t3 t4 m1 t5 where
      "client_New_res w = None"
      and "cluster_Init_res w = None"
      and "initServices w ctx (GetRelease_Name w) = (None, t1)"
      and "initComponents w ctx (GetRelease_Name w) = (None, t2)"
      and "createSecretCacheConfig w (GetRelease_Name w) = Inr sc"
      and "createODHGeneralCacheConfig w (GetRelease_Name w) = Inr gc"
      and "GetConfigOrDie_res w = Some rc"
      and "NewManager_res w = None"
      and "RegisterAllWebhooks_res w = None"
      and "DSCI_SetupWithManager_res w = None"
      and "NewDataScienceClusterReconciler_res w = None"
      and "createServiceReconcilers w (manager_New (managerOptions (config op) (scheme op) (cacheOptions w (scheme op) sc gc))) ctx = (None, t3)"
      and "createComponentReconcilers w (manager_New (managerOptions (config op) (scheme op) (cacheOptions w (scheme op) sc gc))) ctx = (None, t4)"
      and "addStartupTasks w (config op) (manager_New (managerOptions (config op) (scheme op) (cacheOptions w (scheme op) sc gc))) ctx (Client (RestConfig (config op)) (scheme op)) (GetRelease_Name w) = (None, m1, t5)"
      and "AddHealthzCheck_res w = None"
      and "AddReadyzCheck_res w = None"
      and "Setup w op ctx = (Return None, op\<lparr>mgr := Some (m1\<lparr>healthzChecks := healthzChecks m1 @ [''healthz''], readyzChecks := readyzChecks m1 @ [''readyz'']\<rparr>)\<rparr>, [Call c_client_New] @ [Call c_cluster_Init] @ t1 @ t2 @ [Call c_createSecretCacheConfig] @ [Call c_createODHGeneralCacheConfig] @ [Call c_GetConfigOrDie] @ [Call c_NewManager] @ [Call c_RegisterAllWebhooks] @ [Call c_DSCI_SetupWithManager] @ [Call c_NewDataScienceClusterReconciler] @ t3 @ t4 @ t5 @ [Call (c_AddHealthzCheck ''healthz'')] @ [Call (c_AddReadyzCheck ''readyz'')])"
proof -
  show thesis
  proof (cases "client_New_res w")
    case (Some err)
    note f1 = this
    show thesis by (rule that(1)[OF f1]) (simp add: Setup_def Let_def client_New_def AddHealthzCheck_def AddReadyzCheck_def f1)
  next
    case None
    note f1 = this
    show thesis
    proof (cases "cluster_Init_res w")
      case (Some err)
      note f2 = this
      show thesis by (rule that(2)[OF f1 f2]) (simp add: Setup_def Let_def client_New_def AddHealthzCheck_def AddReadyzCheck_def f1 f2)
    next
      case None
      note f2 = this
      show thesis
      proof (cases "initServices w ctx (GetRelease_Name w)")
        case (Pair r t1)
        note e = this
        show thesis
        proof (cases r)
          case (Some err)
          with e have f3: "initServices w ctx (GetRelease_Name w) = (Some err, t1)" by simp
          show thesis by (rule that(3)[OF f1 f2 f3]) (simp add: Setup_def Let_def client_New_def AddHealthzCheck_def AddReadyzCheck_def f1 f2 f3)
        next
          case None
          with e have f3: "initServices w ctx (GetRelease_Name w) = (None, t1)" by simp
          show thesis
          proof (cases "initComponents w ctx (GetRelease_Name w)")
            case (Pair r t2)
            note e = this
            show thesis
            proof (cases r)
              case (Some err)
              with e have f4: "initComponents w ctx (GetRelease_Name w) = (Some err, t2)" by simp
              show thesis by (rule that(4)[OF f1 f2 f3 f4]) (simp add: Setup_def Let_def client_New_def AddHealthzCheck_def AddReadyzCheck_def f1 f2 f3 f4)
            next
              case None
              with e have f4: "initComponents w ctx (GetRelease_Name w) = (None, t2)" by simp
              show thesis
              proof (cases "createSecretCacheConfig w (GetRelease_Name w)")
                case (Inl err)
                note f5 = this
                show thesis by (rule that(5)[OF f1 f2 f3 f4 f5]) (simp add: Setup_def Let_def client_New_def AddHealthzCheck_def AddReadyzCheck_def f1 f2 f3 f4 f5)
              next
                case (Inr sc)
                note f5 = this
                show thesis
                proof (cases "createODHGeneralCacheConfig w (GetRelease_Name w)")
                  case (Inl err)
                  note f6 = this
                  show thesis by (rule that(6)[OF f1 f2 f3 f4 f5 f6]) (simp add: Setup_def Let_def client_New_def AddHealthzCheck_def AddReadyzCheck_def f1 f2 f3 f4 f5 f6)
                next
                  case (Inr gc)
                  note f6 = this
                  show thesis
                  proof (cases "GetConfigOrDie_res w")
                    case None
                    note f7 = this
                    show thesis by (rule that(7)[OF f1 f2 f3 f4 f5 f6 f7]) (simp add: Setup_def Let_def client_New_def AddHealthzCheck_def AddReadyzCheck_def f1 f2 f3 f4 f5 f6 f7)
                  next
                    case (Some rc)
                    note f7 = this
                    show thesis
                    proof (cases "NewManager_res w")
                      case (Some err)
                      note f8 = this
                      show thesis by (rule that(8)[OF f1 f2 f3 f4 f5 f6 f7 f8]) (simp add: Setup_def Let_def client_New_def AddHealthzCheck_def AddReadyzCheck_def f1 f2 f3 f4 f5 f6 f7 f8)
                    next
                      case None
                      note f8 = this
                      show thesis
                      proof (cases "RegisterAllWebhooks_res w")
                        case (Some err)
                        note f9 = this
                        show thesis by (rule that(9)[OF f1 f2 f3 f4 f5 f6 f7 f8 f9]) (simp add: Setup_def Let_def client_New_def AddHealthzCheck_def AddReadyzCheck_def f1 f2 f3 f4 f5 f6 f7 f8 f9)
                      next
                        case None
                        note f9 = this
                        show thesis
                        proof (cases "DSCI_SetupWithManager_res w")
                          case (Some err)
                          note f10 = this
                          show thesis by (rule that(10)[OF f1 f2 f3 f4 f5 f6 f7 f8 f9 f10]) (simp add: Setup_def Let_def client_New_def AddHealthzCheck_def AddReadyzCheck_def f1 f2 f3 f4 f5 f6 f7 f8 f9 f10)
                        next
                          case None
                          note f10 = this
                          show thesis
                          proof (cases "NewDataScienceClusterReconciler_res w")
                            case (Some err)
                            note f11 = this
                            show thesis by (rule that(11)[OF f1 f2 f3 f4 f5 f6 f7 f8 f9 f10 f11]) (simp add: Setup_def Let_def client_New_def AddHealthzCheck_def AddReadyzCheck_def f1 f2 f3 f4 f5 f6 f7 f8 f9 f10 f11)
                          next
                            case None
                            note f11 = this
                            show thesis
                            proof (cases "createServiceReconcilers w (manager_New (managerOptions (config op) (scheme op) (cacheOptions w (scheme op) sc gc))) ctx")
                              case (Pair r t3)
                              note e = this
                              show thesis
                              proof (cases r)
                                case (Some err)
                                with e have f12: "createServiceReconcilers w (manager_New (managerOptions (config op) (scheme op) (cacheOptions w (scheme op) sc gc))) ctx = (Some err, t3)" by simp
                                show thesis by (rule that(12)[OF f1 f2 f3 f4 f5 f6 f7 f8 f9 f10 f11 f12]) (simp add: Setup_def Let_def client_New_def AddHealthzCheck_def AddReadyzCheck_def f1 f2 f3 f4 f5 f6 f7 f8 f9 f10 f11 f12)
                              next
                                case None
                                with e have f12: "createServiceReconcilers w (manager_New (managerOptions (config op) (scheme op) (cacheOptions w (scheme op) sc gc))) ctx = (None, t3)" by simp
                                show thesis
                                proof (cases "createComponentReconcilers w (manager_New (managerOptions (config op) (scheme op) (cacheOptions w (scheme op) sc gc))) ctx")
                                  case (Pair r t4)
                                  note e = this
                                  show thesis
                                  proof (cases r)
                                    case (Some err)
                                    with e have f13: "createComponentReconcilers w (manager_New (managerOptions (config op) (scheme op) (cacheOptions w (scheme op) sc gc))) ctx = (Some err, t4)" by simp
                                    show thesis by (rule that(13)[OF f1 f2 f3 f4 f5 f6 f7 f8 f9 f10 f11 f12 f13]) (simp add: Setup_def Let_def client_New_def AddHealthzCheck_def AddReadyzCheck_def f1 f2 f3 f4 f5 f6 f7 f8 f9 f10 f11 f12 f13)
                                  next
                                    case None
                                    with e have f13: "createComponentReconcilers w (manager_New (managerOptions (config op) (scheme op) (cacheOptions w (scheme op) sc gc))) ctx = (None, t4)" by simp
                                    show thesis
                                    proof (cases "addStartupTasks w (config op) (manager_New (managerOptions (config op) (scheme op) (cacheOptions w (scheme op) sc gc))) ctx (Client (RestConfig (config op)) (scheme op)) (GetRelease_Name w)")
                                      case (fields r m1 t5)
                                      note e = this
                                      show thesis
                                      proof (cases r)
                                        case (Some err)
                                        with e have f14: "addStartupTasks w (config op) (manager_New (managerOptions (config op) (scheme op) (cacheOptions w (scheme op) sc gc))) ctx (Client (RestConfig (config op)) (scheme op)) (GetRelease_Name w) = (Some err, m1, t5)" by simp
                                        show thesis by (rule that(14)[OF f1 f2 f3 f4 f5 f6 f7 f8 f9 f10 f11 f12 f13 f14]) (simp add: Setup_def Let_def client_New_def AddHealthzCheck_def AddReadyzCheck_def f1 f2 f3 f4 f5 f6 f7 f8 f9 f10 f11 f12 f13 f14)
                                      next
                                        case None
                                        with e have f14: "addStartupTasks w (config op) (manager_New (managerOptions (config op) (scheme op) (cacheOptions w (scheme op) sc gc))) ctx (Client (RestConfig (config op)) (scheme op)) (GetRelease_Name w) = (None, m1, t5)" by simp
                                        show thesis
                                        proof (cases "AddHealthzCheck_res w")
                                          case (Some err)
                                          note f15 = this
                                          show thesis by (rule that(15)[OF f1 f2 f3 f4 f5 f6 f7 f8 f9 f10 f11 f12 f13 f14 f15]) (simp add: Setup_def Let_def client_New_def AddHealthzCheck_def AddReadyzCheck_def f1 f2 f3 f4 f5 f6 f7 f8 f9 f10 f11 f12 f13 f14 f15)
                                        next
                                          case None
                                          note f15 = this
                                          show thesis
                                          proof (cases "AddReadyzCheck_res w")
                                            case (Some err)
                                            note f16 = this
                                            show thesis by (rule that(16)[OF f1 f2 f3 f4 f5 f6 f7 f8 f9 f10 f11 f12 f13 f14 f15 f16]) (simp add: Setup_def Let_def client_New_def AddHealthzCheck_def AddReadyzCheck_def f1 f2 f3 f4 f5 f6 f7 f8 f9 f10 f11 f12 f13 f14 f15 f16)
                                          next
                                            case None
                                            note f16 = this
                                            show thesis
                                            by (rule that(17)[OF f1 f2 f3 f4 f5 f6 f7 f8 f9 f10 f11 f12 f13 f14 f15 f16]) (simp add: Setup_def Let_def client_New_def AddHealthzCheck_def AddReadyzCheck_def f1 f2 f3 f4 f5 f6 f7 f8 f9 f10 f11 f12 f13 f14 f15 f16)
                                          qed
                                        qed
                                      qed
                                    qed
                                  qed
                                qed
                              qed
                            qed
                          qed
                        qed
                      qed
                    qed
                  qed
                qed
              qed
            qed
          qed
        qed
      qed
    qed
  qed
qed


subsection \<open>The startup tasks\<close>

lemma step_of_message_simps [simp]:
  "step_of_message ''error getting client for setup: '' = 1"
  "step_of_message ''unable to initialize cluster config: '' = 1"
  "step_of_message ''unable to init services: '' = 2"
  "step_of_message ''unable to init components: '' = 2"
  "step_of_message ''unable to get application namespace into cache: '' = 3"
  "step_of_message ''unable to start manager: '' = 4"
  "step_of_message ''unable to register webhooks: '' = 5"
  "step_of_message ''unable to create controller DSCInitialization: '' = 6"
  "step_of_message ''unable to create controller DataScienceCluster: '' = 6"
  "step_of_message ''unable to create service controllers: '' = 7"
  "step_of_message ''unable to create component controllers: '' = 7"
  "step_of_message ''error scheduling DSCI creation: '' = 8"
  "step_of_message ''error scheduling DSC creation: '' = 8"
  "step_of_message ''unable to set up health check: '' = 9"
  "step_of_message ''unable to set up ready check: '' = 9"
  by (simp_all add: step_of_message_def)

text \<open>The three closures are three different functions: their first log line differs.\<close>

lemma DSCI_neq_DSC: "createDefaultDSCIFunc w cfg sc p \<noteq> createDefaultDSCFunc w' sc'"
proof
  assume "createDefaultDSCIFunc w cfg sc p = createDefaultDSCFunc w' sc'"
  then have "fst (createDefaultDSCIFunc w cfg sc p SignalHandler) = fst (createDefaultDSCFunc w' sc' SignalHandler)"
    by simp
  then show False
    by (simp add: createDefaultDSCIFunc_def createDefaultDSCFunc_def Let_def)
qed

lemma DSCI_neq_cleanup: "createDefaultDSCIFunc w cfg sc p \<noteq> cleanup w' sc'"
proof
  assume "createDefaultDSCIFunc w cfg sc p = cleanup w' sc'"
  then have "fst (createDefaultDSCIFunc w cfg sc p SignalHandler) = fst (cleanup w' sc' SignalHandler)"
    by simp
  then show False
    by (simp add: createDefaultDSCIFunc_def cleanup_def Let_def split: option.splits)
qed

lemma DSC_neq_cleanup: "createDefaultDSCFunc w sc \<noteq> cleanup w' sc'"
proof
  assume "createDefaultDSCFunc w sc = cleanup w' sc'"
  then have "fst (createDefaultDSCFunc w sc SignalHandler) = fst (cleanup w' sc' SignalHandler)"
    by simp
  then show False
    by (simp add: createDefaultDSCFunc_def cleanup_def Let_def split: option.splits)
qed

lemma wrapper_eq_iff [simp]:
  "leaderElectionRunnableFunc f = leaderElectionRunnableFunc g \<longleftrightarrow> f = g"
  by (simp add: leaderElectionRunnableFunc_def)

lemmas closure_neqs [simp] =
  DSCI_neq_DSC DSCI_neq_cleanup DSC_neq_cleanup
  DSCI_neq_DSC [symmetric] DSCI_neq_cleanup [symmetric] DSC_neq_cleanup [symmetric]

lemma addStartupTasks_calls:
  "(\<forall>c\<in>set (calls (snd (snd (addStartupTasks w cfg m ctx sc p)))). site c = 14) \<and>
   (\<forall>c\<in>set (calls (snd (snd (addStartupTasks w cfg m ctx sc p)))). step_of c = 8)"
  by (simp add: addStartupTasks_def LookupEnv_def mgr_Add_def Let_def
           split: option.splits prod.splits)

lemma addStartupTasks_error:
  "fst (addStartupTasks w cfg m ctx sc p) = Some e \<Longrightarrow>
   failed_step e = 8 \<and> calls (snd (snd (addStartupTasks w cfg m ctx sc p))) \<noteq> [] \<and>
   (\<exists>q e'. e = Errorf_w q e')"
  by (auto simp: addStartupTasks_def LookupEnv_def mgr_Add_def Let_def Errorf_w_def
           split: option.splits prod.splits if_splits)

lemma addStartupTasks_DSCI:
  "Call (c_mgr_Add (leaderElectionRunnableFunc (createDefaultDSCIFunc w cfg sc p)))
     \<in> set (snd (snd (addStartupTasks w cfg m ctx sc p)))
   \<longleftrightarrow> environ w ''DISABLE_DSC_CONFIG'' = None \<or> environ w ''DISABLE_DSC_CONFIG'' = Some ''false''"
  by (simp add: addStartupTasks_def LookupEnv_def mgr_Add_def Let_def
           split: option.splits prod.splits)

lemma addStartupTasks_disabled_log:
  "Logged (Info ''DSCI auto creation is disabled'') \<in> set (snd (snd (addStartupTasks w cfg m ctx sc p)))
   \<longleftrightarrow> \<not> (environ w ''DISABLE_DSC_CONFIG'' = None \<or> environ w ''DISABLE_DSC_CONFIG'' = Some ''false'')"
  by (simp add: addStartupTasks_def LookupEnv_def mgr_Add_def Let_def
           split: option.splits prod.splits)

lemma addStartupTasks_DSCI_runnable:
  "environ w ''DISABLE_DSC_CONFIG'' = None \<or> environ w ''DISABLE_DSC_CONFIG'' = Some ''false'' \<Longrightarrow>
   mgr_Add_res w (leaderElectionRunnableFunc (createDefaultDSCIFunc w cfg sc p)) = None \<Longrightarrow>
   leaderElectionRunnableFunc (createDefaultDSCIFunc w cfg sc p)
     \<in> set (runnables (fst (snd (addStartupTasks w cfg m ctx sc p))))"
  by (auto simp: addStartupTasks_def LookupEnv_def mgr_Add_def Let_def
           split: option.splits prod.splits)

lemma addStartupTasks_result:
  "fst (addStartupTasks w cfg m ctx sc p) = None \<longleftrightarrow>
     ((environ w ''DISABLE_DSC_CONFIG'' = None \<or> environ w ''DISABLE_DSC_CONFIG'' = Some ''false'') \<longrightarrow>
        mgr_Add_res w (leaderElectionRunnableFunc (createDefaultDSCIFunc w cfg sc p)) = None) \<and>
     (p = ManagedRhoai w \<longrightarrow>
        mgr_Add_res w (leaderElectionRunnableFunc (createDefaultDSCFunc w sc)) = None)"
  by (auto simp: addStartupTasks_def LookupEnv_def mgr_Add_def Let_def
           split: option.splits prod.splits)

lemma addStartupTasks_cleanup:
  "Call (c_mgr_Add (leaderElectionRunnableFunc (cleanup w sc)))
     \<in> set (snd (snd (addStartupTasks w cfg m ctx sc p)))
   \<longleftrightarrow> fst (addStartupTasks w cfg m ctx sc p) = None"
  by (simp add: addStartupTasks_def LookupEnv_def mgr_Add_def Let_def
           split: option.splits prod.splits)

lemma addStartupTasks_cleanup_refused:
  "fst (addStartupTasks w cfg m ctx sc p) = None \<Longrightarrow>
   mgr_Add_res w (leaderElectionRunnableFunc (cleanup w sc)) = Some err \<Longrightarrow>
   last (snd (snd (addStartupTasks w cfg m ctx sc p)))
     = Logged (ErrorLog err ''error remove deprecated resources from previous version'')"
  by (auto simp: addStartupTasks_def LookupEnv_def mgr_Add_def Let_def
           split: option.splits prod.splits if_splits)

lemma addStartupTasks_cleanup_accepted:
  "fst (addStartupTasks w cfg m ctx sc p) = None \<Longrightarrow>
   mgr_Add_res w (leaderElectionRunnableFunc (cleanup w sc)) = None \<Longrightarrow>
   leaderElectionRunnableFunc (cleanup w sc) \<in> set (runnables (fst (snd (addStartupTasks w cfg m ctx sc p))))"
  by (auto simp: addStartupTasks_def LookupEnv_def mgr_Add_def Let_def
           split: option.splits prod.splits if_splits)


subsection \<open>Properties of every execution of Setup\<close>

lemma addStartupTasks_D:
  assumes "addStartupTasks w cfg m ctx sc p = (r, m', t)"
  shows "map site (calls t) = replicate (length (calls t)) 14 \<and>
         map step_of (calls t) = replicate (length (calls t)) 8 \<and>
         (r \<noteq> None \<longrightarrow> calls t \<noteq> [] \<and> step_of (last (calls t)) = 8 \<and>
            failed_step (the r) = 8 \<and> (\<exists>q e'. the r = Errorf_w q e'))"
proof -
  have r: "r = fst (addStartupTasks w cfg m ctx sc p)" and t: "t = snd (snd (addStartupTasks w cfg m ctx sc p))"
    by (simp_all add: assms)
  have a: "\<forall>c\<in>set (calls t). site c = 14" and b: "\<forall>c\<in>set (calls t). step_of c = 8"
    unfolding t using addStartupTasks_calls [of w cfg m ctx sc p] by simp_all
  have d: "calls t \<noteq> [] \<and> failed_step (the r) = 8 \<and> (\<exists>q e'. the r = Errorf_w q e')" if "r \<noteq> None"
  proof -
    from that obtain e where e: "r = Some e" by auto
    then have "fst (addStartupTasks w cfg m ctx sc p) = Some e" by (simp add: r)
    from addStartupTasks_error [OF this] show ?thesis by (simp add: e t)
  qed
  have e: "step_of (last (calls t)) = 8" if "r \<noteq> None"
    using d [OF that] b last_in_set [of "calls t"] by blast
  from d e same_key_replicate [OF a] same_key_replicate [OF b] show ?thesis
    by blast
qed

lemma addStartupTasks_notin:
  assumes "addStartupTasks w cfg m ctx sc p = (r, m', t)"
  shows "(\<forall>c. site c \<noteq> 14 \<longrightarrow> c \<notin> set (calls t)) \<and>
         (c_mgr_Add (leaderElectionRunnableFunc (cleanup w sc)) \<in> set (calls t) \<longleftrightarrow> r = None)"
proof -
  have r: "r = fst (addStartupTasks w cfg m ctx sc p)" and t: "t = snd (snd (addStartupTasks w cfg m ctx sc p))"
    by (simp_all add: assms)
  have a: "\<forall>c\<in>set (calls t). site c = 14"
    unfolding t using addStartupTasks_calls [of w cfg m ctx sc p] by simp
  have c: "c_mgr_Add (leaderElectionRunnableFunc (cleanup w sc)) \<in> set (calls t) \<longleftrightarrow> r = None"
    unfolding r t using addStartupTasks_cleanup [of w sc cfg m ctx p] by (simp add: Call_in_set_iff)
  from a c show ?thesis by blast
qed

lemma Setup_after_cleanup:
  assumes "Call (c_mgr_Add (leaderElectionRunnableFunc (cleanup w (Client (RestConfig (config op)) (scheme op)))))
             \<in> set (snd (snd (Setup w op ctx)))"
  shows "Call (c_AddHealthzCheck ''healthz'') \<in> set (snd (snd (Setup w op ctx))) \<and>
         (fst (Setup w op ctx) = Return None \<longleftrightarrow>
            AddHealthzCheck_res w = None \<and> AddReadyzCheck_res w = None)"
  using assms
  by - (cases rule: Setup_cases [of w op ctx];
      (frule initServices_notin)?; (frule initComponents_notin)?; (frule createServiceReconcilers_notin)?;
      (frule createComponentReconcilers_notin)?; (frule addStartupTasks_notin)?;
      simp add: Call_in_set_iff)

lemma Setup_sorted:
  "sorted (map site (calls (snd (snd (Setup w op ctx))))) \<and>
   sorted (map step_of (calls (snd (snd (Setup w op ctx)))))"
  by (cases rule: Setup_cases [of w op ctx];
      (frule initServices_D)?; (frule initComponents_D)?; (frule createServiceReconcilers_D)?;
      (frule createComponentReconcilers_D)?; (frule addStartupTasks_D)?;
      simp add: sorted_append ball_Un set_replicate_conv_if)

lemma Setup_steps_range:
  "\<forall>n\<in>set (map step_of (calls (snd (snd (Setup w op ctx))))). 1 \<le> n \<and> n \<le> 9"
  by (cases rule: Setup_cases [of w op ctx];
      (frule initServices_D)?; (frule initComponents_D)?; (frule createServiceReconcilers_D)?;
      (frule createComponentReconcilers_D)?; (frule addStartupTasks_D)?;
      simp add: ball_Un set_replicate_conv_if)

lemma Setup_error:
  assumes "fst (Setup w op ctx) = Return (Some e)"
  shows "(\<exists>q e'. e = Errorf_w q e') \<and> 1 \<le> failed_step e \<and> failed_step e \<le> 9 \<and>
         calls (snd (snd (Setup w op ctx))) \<noteq> [] \<and>
         step_of (last (calls (snd (snd (Setup w op ctx))))) = failed_step e"
  using assms
  by - (cases rule: Setup_cases [of w op ctx];
      (frule initServices_D)?; (frule initComponents_D)?; (frule createServiceReconcilers_D)?;
      (frule createComponentReconcilers_D)?; (frule addStartupTasks_D)?;
      clarsimp simp: Errorf_w_def)

lemma Setup_outcome:
  "fst (Setup w op ctx) \<noteq> Panic msg \<and> (fst (Setup w op ctx) = Exit n \<longrightarrow> n = 1)"
  by (cases rule: Setup_cases [of w op ctx]; simp)

lemma Setup_no_Start:
  "Call c_Start \<notin> set (snd (snd (Setup w op ctx))) \<and>
   Call c_mgr_Start \<notin> set (snd (snd (Setup w op ctx)))"
proof -
  have "step_of c \<noteq> 10" if "c \<in> set (calls (snd (snd (Setup w op ctx))))" for c
  proof -
    from that have "step_of c \<in> set (map step_of (calls (snd (snd (Setup w op ctx)))))"
      by simp
    with Setup_steps_range [of w op ctx] have "step_of c \<le> 9"
      by blast
    then show ?thesis by simp
  qed
  from this [of c_Start] this [of c_mgr_Start] show ?thesis
    by (auto simp: Call_in_set_iff)
qed

lemma Setup_success:
  assumes "fst (Setup w op ctx) = Return None"
  shows "\<exists>ts. calls (snd (snd (Setup w op ctx))) =
           [c_client_New, c_cluster_Init] @
           map (\<lambda>sh. c_Init_service (sh_GetName sh)) (service_registry w) @
           map (\<lambda>ch. c_Init_component (ch_GetName ch)) (component_registry w) @
           [c_createSecretCacheConfig, c_createODHGeneralCacheConfig, c_GetConfigOrDie,
            c_NewManager, c_RegisterAllWebhooks, c_DSCI_SetupWithManager,
            c_NewDataScienceClusterReconciler] @
           map (\<lambda>sh. c_NewReconciler_service (sh_GetName sh)) (service_registry w) @
           map (\<lambda>ch. c_NewComponentReconciler (ch_GetName ch)) (component_registry w) @
           ts @
           [c_AddHealthzCheck ''healthz'', c_AddReadyzCheck ''readyz''] \<and>
         map step_of ts = replicate (length ts) 8 \<and>
         c_mgr_Add (leaderElectionRunnableFunc (cleanup w (Client (RestConfig (config op)) (scheme op))))
           \<in> set ts"
proof (cases rule: Setup_cases [of w op ctx])
  case (success t1 t2 sc gc rc t3 t4 m1 t5)
  note t1 = initServices_ok [OF success(3)]
    and t2 = initComponents_ok [OF success(4)]
    and t3 = createServiceReconcilers_ok [OF success(12)]
    and t4 = createComponentReconcilers_ok [OF success(13)]
    and t5 = addStartupTasks_D [OF success(14)] addStartupTasks_notin [OF success(14)]
  show ?thesis
    by (rule exI [of _ "calls t5"]) (simp add: success(17) t1 t2 t3 t4 t5)
qed (use assms in simp_all)

lemma Setup_operator_namespace_unresolved:
  assumes "GetOperatorNamespace_res w = Inl e"
  shows "fst (Setup w op ctx) \<noteq> Return None \<and>
         Call c_NewManager \<notin> set (snd (snd (Setup w op ctx))) \<and>
         (Call c_createSecretCacheConfig \<in> set (snd (snd (Setup w op ctx))) \<longrightarrow>
            fst (Setup w op ctx) =
              Return (Some (Errorf_w ''unable to get application namespace into cache: '' e)))"
  using createSecretCacheConfig_Inl [OF assms, of "GetRelease_Name w"]
  by - (cases rule: Setup_cases [of w op ctx];
      (frule initServices_notin)?; (frule initComponents_notin)?; (frule createServiceReconcilers_notin)?;
      (frule createComponentReconcilers_notin)?; (frule addStartupTasks_notin)?;
      simp add: Call_in_set_iff)

lemma Setup_mgr:
  assumes "mgr op = None"
  shows "(mgr (fst (snd (Setup w op ctx))) \<noteq> None \<longleftrightarrow>
            Call c_NewManager \<in> set (snd (snd (Setup w op ctx))) \<and> NewManager_res w = None) \<and>
         (fst (Setup w op ctx) = Return None \<longrightarrow> mgr (fst (snd (Setup w op ctx))) \<noteq> None)"
  using assms
  by - (cases rule: Setup_cases [of w op ctx];
      (frule initServices_notin)?; (frule initComponents_notin)?; (frule createServiceReconcilers_notin)?;
      (frule createComponentReconcilers_notin)?; (frule addStartupTasks_notin)?;
      simp add: Call_in_set_iff)

lemma main_Start:
  assumes cfg: "LoadConfig_res w = Inr cfg"
  shows "(Call c_Start \<in> set (fst (main w)) \<longleftrightarrow>
            fst (Setup w (New cfg) (IntoContext SignalHandler ''setup'')) = Return None) \<and>
         (Call c_mgr_Start \<in> set (fst (main w)) \<longrightarrow>
            fst (Setup w (New cfg) (IntoContext SignalHandler ''setup'')) = Return None) \<and>
         (fst (Setup w (New cfg) (IntoContext SignalHandler ''setup'')) \<noteq> Return None \<longrightarrow>
            snd (main w) \<noteq> 0)"
proof -
  obtain r op' ts where S: "Setup w (New cfg) (IntoContext SignalHandler ''setup'') = (r, op', ts)"
    by (cases "Setup w (New cfg) (IntoContext SignalHandler ''setup'')") auto
  have ns: "Call c_Start \<notin> set ts" "Call c_mgr_Start \<notin> set ts"
    using Setup_no_Start [of w "New cfg" "IntoContext SignalHandler ''setup''"] by (simp_all add: S)
  have ex: "r \<noteq> Exit 0"
    using Setup_outcome [of w "New cfg" "IntoContext SignalHandler ''setup''" undefined 0] by (simp add: S)
  show ?thesis
  proof (cases r)
    case (Return x)
    show ?thesis
    proof (cases x)
      case None
      with Return S cfg ns show ?thesis
        by (simp add: main_def Create_def OperatorTypeMain_def NewFactory_def Start_def Let_def
                 split: option.splits)
    next
      case (Some err)
      with Return S cfg ns show ?thesis
        by (simp add: main_def Create_def OperatorTypeMain_def NewFactory_def Let_def)
    qed
  next
    case (Exit n)
    with S cfg ns ex show ?thesis
      by (simp add: main_def Create_def OperatorTypeMain_def NewFactory_def Let_def)
  next
    case (Panic msg)
    with S cfg ns show ?thesis
      by (simp add: main_def Create_def OperatorTypeMain_def NewFactory_def Let_def)
  qed
qed


subsection \<open>Setup against the specification's plan\<close>

lemma run_plan_append:
  "run_plan (xs @ ys) =
     (if fst (run_plan xs) = Return None
      then (fst (run_plan ys), snd (run_plan xs) @ snd (run_plan ys))
      else run_plan xs)"
  by (induction xs rule: run_plan.induct) (simp_all add: split_beta)

lemma run_plan_prefix: "\<exists>k. snd (run_plan plan) = take k (map fst plan)"
proof (induction plan rule: run_plan.induct)
  case 1
  show ?case by simp
next
  case (2 c plan)
  then obtain k where "snd (run_plan plan) = take k (map fst plan)" ..
  then have "snd (run_plan ((c, Proceeds) # plan)) = take (Suc k) (map fst ((c, Proceeds) # plan))"
    by (simp add: split_beta)
  then show ?case ..
next
  case (3 c e plan)
  have "snd (run_plan ((c, Aborts e) # plan)) = take (Suc 0) (map fst ((c, Aborts e) # plan))"
    by simp
  then show ?case ..
next
  case (4 c n plan)
  have "snd (run_plan ((c, Exits n) # plan)) = take (Suc 0) (map fst ((c, Exits n) # plan))"
    by simp
  then show ?case ..
qed

lemma run_plan_abort:
  "run_plan plan = (Return (Some e), cs) \<Longrightarrow>
   \<exists>k<length plan. cs = take (Suc k) (map fst plan) \<and> snd (plan ! k) = Aborts e \<and>
     (\<forall>i<k. snd (plan ! i) = Proceeds)"
proof (induction plan arbitrary: cs rule: run_plan.induct)
  case 1
  then show ?case by simp
next
  case (2 c plan)
  from "2.prems" obtain cs' where r: "run_plan plan = (Return (Some e), cs')" and cs: "cs = c # cs'"
    by (auto split: prod.splits)
  from "2.IH" [OF r] obtain k where k: "k < length plan" "cs' = take (Suc k) (map fst plan)"
    "snd (plan ! k) = Aborts e" "\<forall>i<k. snd (plan ! i) = Proceeds"
    by blast
  have "Suc k < length ((c, Proceeds) # plan) \<and>
        cs = take (Suc (Suc k)) (map fst ((c, Proceeds) # plan)) \<and>
        snd (((c, Proceeds) # plan) ! Suc k) = Aborts e \<and>
        (\<forall>i<Suc k. snd (((c, Proceeds) # plan) ! i) = Proceeds)"
    using k cs by (auto simp: nth_Cons split: nat.splits)
  then show ?case by blast
next
  case (3 c e' plan)
  then have "0 < length ((c, Aborts e') # plan) \<and>
        cs = take (Suc 0) (map fst ((c, Aborts e') # plan)) \<and>
        snd (((c, Aborts e') # plan) ! 0) = Aborts e \<and>
        (\<forall>i<0. snd (((c, Aborts e') # plan) ! i) = Proceeds)"
    by simp
  then show ?case by blast
next
  case (4 c n plan)
  then show ?case by simp
qed

lemma run_plan_success_iff:
  "fst (run_plan plan) = Return None \<longleftrightarrow> (\<forall>x\<in>set plan. snd x = Proceeds)"
  by (induction plan rule: run_plan.induct) (simp_all add: split_beta)

lemma run_plan_ForEach:
  assumes r: "\<And>h. fst (fn h) = res h" and c: "\<And>h. calls (snd (fn h)) = [g h]"
  shows "run_plan (map (\<lambda>h. (g h, abort_with msg (named (nm h) (res h)))) hs) =
           ((case fst (ForEach nm hs fn) of
               None \<Rightarrow> Return None
             | Some e \<Rightarrow> Return (Some (Errorf_w msg e))),
            calls (snd (ForEach nm hs fn)))"
proof (induction hs)
  case Nil
  show ?case by simp
next
  case (Cons h hs)
  obtain a t where f: "fn h = (a, t)"
    by (cases "fn h")
  with r [of h] c [of h] have a: "res h = a" and t: "calls t = [g h]"
    by simp_all
  show ?case
  proof (cases a)
    case None
    with Cons f a t show ?thesis
      by (simp add: abort_with_def named_def split_beta)
  next
    case (Some e)
    with f a t show ?thesis
      by (simp add: abort_with_def named_def)
  qed
qed

lemma initServices_plan:
  assumes "initServices w ctx p = (r, t)"
  shows "run_plan (map (\<lambda>sh. (c_Init_service (sh_GetName sh),
                 abort_with ''unable to init services: '' (named (sh_GetName sh) (sh_Init sh p))))
               (service_registry w)) =
           ((case r of None \<Rightarrow> Return None
             | Some e \<Rightarrow> Return (Some (Errorf_w ''unable to init services: '' e))), calls t)"
proof -
  have "run_plan (map (\<lambda>sh. (c_Init_service (sh_GetName sh),
                 abort_with ''unable to init services: '' (named (sh_GetName sh) (sh_Init sh p))))
               (service_registry w)) =
           ((case fst (initServices w ctx p) of None \<Rightarrow> Return None
             | Some e \<Rightarrow> Return (Some (Errorf_w ''unable to init services: '' e))),
            calls (snd (initServices w ctx p)))"
    unfolding initServices_def sr_ForEach_def
    by (rule run_plan_ForEach) simp_all
  with assms show ?thesis
    by simp
qed

lemma initComponents_plan:
  assumes "initComponents w ctx p = (r, t)"
  shows "run_plan (map (\<lambda>ch. (c_Init_component (ch_GetName ch),
                 abort_with ''unable to init components: '' (named (ch_GetName ch) (ch_Init ch p))))
               (component_registry w)) =
           ((case r of None \<Rightarrow> Return None
             | Some e \<Rightarrow> Return (Some (Errorf_w ''unable to init components: '' e))), calls t)"
proof -
  have "run_plan (map (\<lambda>ch. (c_Init_component (ch_GetName ch),
                 abort_with ''unable to init components: '' (named (ch_GetName ch) (ch_Init ch p))))
               (component_registry w)) =
           ((case fst (initComponents w ctx p) of None \<Rightarrow> Return None
             | Some e \<Rightarrow> Return (Some (Errorf_w ''unable to init components: '' e))),
            calls (snd (initComponents w ctx p)))"
    unfolding initComponents_def cr_ForEach_def
    by (rule run_plan_ForEach) simp_all
  with assms show ?thesis
    by simp
qed

lemma createServiceReconcilers_plan:
  assumes "createServiceReconcilers w m ctx = (r, t)"
  shows "run_plan (map (\<lambda>sh. (c_NewReconciler_service (sh_GetName sh),
                 abort_with ''unable to create service controllers: ''
                   (named (sh_GetName sh)
                      (map_option (Errorf_w (''error creating '' @ sh_GetName sh @ '' service reconciler: ''))
                         (sh_NewReconciler sh)))))
               (service_registry w)) =
           ((case r of None \<Rightarrow> Return None
             | Some e \<Rightarrow> Return (Some (Errorf_w ''unable to create service controllers: '' e))), calls t)"
proof -
  have "run_plan (map (\<lambda>sh. (c_NewReconciler_service (sh_GetName sh),
                 abort_with ''unable to create service controllers: ''
                   (named (sh_GetName sh)
                      (map_option (Errorf_w (''error creating '' @ sh_GetName sh @ '' service reconciler: ''))
                         (sh_NewReconciler sh)))))
               (service_registry w)) =
           ((case fst (createServiceReconcilers w m ctx) of None \<Rightarrow> Return None
             | Some e \<Rightarrow> Return (Some (Errorf_w ''unable to create service controllers: '' e))),
            calls (snd (createServiceReconcilers w m ctx)))"
    unfolding createServiceReconcilers_def sr_ForEach_def
    by (rule run_plan_ForEach) (simp_all add: Let_def split: option.splits)
  with assms show ?thesis
    by simp
qed

lemma createComponentReconcilers_plan:
  assumes "createComponentReconcilers w m ctx = (r, t)"
  shows "run_plan (map (\<lambda>ch. (c_NewComponentReconciler (ch_GetName ch),
                 abort_with ''unable to create component controllers: ''
                   (named (ch_GetName ch)
                      (map_option (Errorf_w (''error creating '' @ ch_GetName ch @ '' component reconciler: ''))
                         (ch_NewComponentReconciler ch)))))
               (component_registry w)) =
           ((case r of None \<Rightarrow> Return None
             | Some e \<Rightarrow> Return (Some (Errorf_w ''unable to create component controllers: '' e))), calls t)"
proof -
  have "run_plan (map (\<lambda>ch. (c_NewComponentReconciler (ch_GetName ch),
                 abort_with ''unable to create component controllers: ''
                   (named (ch_GetName ch)
                      (map_option (Errorf_w (''error creating '' @ ch_GetName ch @ '' component reconciler: ''))
                         (ch_NewComponentReconciler ch)))))
               (component_registry w)) =
           ((case fst (createComponentReconcilers w m ctx) of None \<Rightarrow> Return None
             | Some e \<Rightarrow> Return (Some (Errorf_w ''unable to create component controllers: '' e))),
            calls (snd (createComponentReconcilers w m ctx)))"
    unfolding createComponentReconcilers_def cr_ForEach_def
    by (rule run_plan_ForEach) (simp_all add: Let_def split: option.splits)
  with assms show ?thesis
    by simp
qed

lemma addStartupTasks_plan:
  assumes "addStartupTasks w cfg m ctx setupClient p = (r, m', t)"
  shows "run_plan (startup_plan w cfg setupClient p) = (Return r, calls t)"
proof -
  have "run_plan (startup_plan w cfg setupClient p) =
          (Return (fst (addStartupTasks w cfg m ctx setupClient p)),
           calls (snd (snd (addStartupTasks w cfg m ctx setupClient p))))"
    by (simp add: startup_plan_def addStartupTasks_def LookupEnv_def mgr_Add_def abort_with_def
          Let_def run_plan_append split: option.splits)
  with assms show ?thesis
    by simp
qed

lemma createSecretCacheConfig_plan:
  "createSecretCacheConfig w p = x \<Longrightarrow>
   (case GetOperatorNamespace_res w of Inl err \<Rightarrow> Some err | Inr ns \<Rightarrow> None) =
     (case x of Inl err \<Rightarrow> Some err | Inr nss \<Rightarrow> None)"
  by (auto simp: createSecretCacheConfig_def getCommonCache_def Let_def split: sum.splits)

lemma createODHGeneralCacheConfig_plan:
  "createODHGeneralCacheConfig w p = x \<Longrightarrow>
   (case GetOperatorNamespace_res w of Inl err \<Rightarrow> Some err | Inr ns \<Rightarrow> None) =
     (case x of Inl err \<Rightarrow> Some err | Inr nss \<Rightarrow> None)"
  by (auto simp: createODHGeneralCacheConfig_def getCommonCache_def Let_def split: sum.splits)

lemma Setup_refines_plan:
  "(fst (Setup w op ctx), calls (snd (snd (Setup w op ctx)))) = run_plan (Setup_plan w op)"
  by (cases rule: Setup_cases [of w op ctx];
      (frule initServices_plan)?; (frule initComponents_plan)?;
      (frule createSecretCacheConfig_plan)?; (frule createODHGeneralCacheConfig_plan)?;
      (frule createServiceReconcilers_plan)?; (frule createComponentReconcilers_plan)?;
      (frule addStartupTasks_plan)?;
      simp add: Setup_plan_def Let_def run_plan_append abort_with_def)

lemma Setup_result_plan: "fst (Setup w op ctx) = fst (run_plan (Setup_plan w op))"
  using arg_cong [OF Setup_refines_plan, of fst w op ctx] by simp

lemma Setup_calls_plan: "calls (snd (snd (Setup w op ctx))) = snd (run_plan (Setup_plan w op))"
  using arg_cong [OF Setup_refines_plan, of snd w op ctx] by simp

lemma Setup_calls_prefix:
  "\<exists>k. calls (snd (snd (Setup w op ctx))) = take k (map fst (Setup_plan w op))"
  unfolding Setup_calls_plan by (rule run_plan_prefix)

lemma Setup_abort:
  assumes "fst (Setup w op ctx) = Return (Some e)"
  shows "\<exists>k<length (Setup_plan w op).
         calls (snd (snd (Setup w op ctx))) = take (Suc k) (map fst (Setup_plan w op)) \<and>
         snd (Setup_plan w op ! k) = Aborts e \<and>
         (\<forall>i<k. snd (Setup_plan w op ! i) = Proceeds)"
proof -
  from assms have "run_plan (Setup_plan w op) = (Return (Some e), calls (snd (snd (Setup w op ctx))))"
    by (simp add: Setup_refines_plan [of w op ctx, symmetric])
  then show ?thesis
    by (rule run_plan_abort)
qed

lemma Setup_success_iff:
  "fst (Setup w op ctx) = Return None \<longleftrightarrow> (\<forall>x\<in>set (Setup_plan w op). snd x = Proceeds)"
  unfolding Setup_result_plan by (rule run_plan_success_iff)

lemma abort_with_Proceeds [simp]: "abort_with msg r = Proceeds \<longleftrightarrow> r = None"
  by (simp add: abort_with_def split: option.splits)

lemma named_None [simp]: "named n r = None \<longleftrightarrow> r = None"
  by (simp add: named_def)

lemma Setup_service_failure:
  assumes "sh \<in> set (service_registry w)"
    and "sh_Init sh (GetRelease_Name w) \<noteq> None \<or> sh_NewReconciler sh \<noteq> None"
  shows "fst (Setup w op ctx) \<noteq> Return None"
proof
  assume "fst (Setup w op ctx) = Return None"
  then have all: "\<forall>x\<in>set (Setup_plan w op). snd x = Proceeds"
    by (simp only: Setup_success_iff)
  have "(c_Init_service (sh_GetName sh),
         abort_with ''unable to init services: '' (named (sh_GetName sh) (sh_Init sh (GetRelease_Name w))))
          \<in> set (Setup_plan w op)"
    using assms(1) by (simp add: Setup_plan_def Let_def image_iff) blast
  with all have 1: "sh_Init sh (GetRelease_Name w) = None"
    by fastforce
  have "(c_NewReconciler_service (sh_GetName sh),
                 abort_with ''unable to create service controllers: ''
                   (named (sh_GetName sh)
                      (map_option (Errorf_w (''error creating '' @ sh_GetName sh @ '' service reconciler: ''))
                         (sh_NewReconciler sh))))
          \<in> set (Setup_plan w op)"
    using assms(1) by (simp add: Setup_plan_def Let_def image_iff) blast
  with all have 2: "sh_NewReconciler sh = None"
    by fastforce
  from 1 2 assms(2) show False
    by simp
qed

lemma Setup_component_failure:
  assumes "ch \<in> set (component_registry w)"
    and "ch_Init ch (GetRelease_Name w) \<noteq> None \<or> ch_NewComponentReconciler ch \<noteq> None"
  shows "fst (Setup w op ctx) \<noteq> Return None"
proof
  assume "fst (Setup w op ctx) = Return None"
  then have all: "\<forall>x\<in>set (Setup_plan w op). snd x = Proceeds"
    by (simp only: Setup_success_iff)
  have "(c_Init_component (ch_GetName ch),
         abort_with ''unable to init components: '' (named (ch_GetName ch) (ch_Init ch (GetRelease_Name w))))
          \<in> set (Setup_plan w op)"
    using assms(1) by (simp add: Setup_plan_def Let_def image_iff) blast
  with all have 1: "ch_Init ch (GetRelease_Name w) = None"
    by fastforce
  have "(c_NewComponentReconciler (ch_GetName ch),
                 abort_with ''unable to create component controllers: ''
                   (named (ch_GetName ch)
                      (map_option (Errorf_w (''error creating '' @ ch_GetName ch @ '' component reconciler: ''))
                         (ch_NewComponentReconciler ch))))
          \<in> set (Setup_plan w op)"
    using assms(1) by (simp add: Setup_plan_def Let_def image_iff) blast
  with all have 2: "ch_NewComponentReconciler ch = None"
    by fastforce
  from 1 2 assms(2) show False
    by simp
qed

lemma Setup_cleanup_reached:
  assumes "fst (Setup w op ctx) = Return None"
  shows "Call (c_mgr_Add (leaderElectionRunnableFunc (cleanup w (Client (RestConfig (config op)) (scheme op)))))
           \<in> set (snd (snd (Setup w op ctx)))"
proof -
  from Setup_success [OF assms] obtain ts where
    "calls (snd (snd (Setup w op ctx))) =
           [c_client_New, c_cluster_Init] @
           map (\<lambda>sh. c_Init_service (sh_GetName sh)) (service_registry w) @
           map (\<lambda>ch. c_Init_component (ch_GetName ch)) (component_registry w) @
           [c_createSecretCacheConfig, c_createODHGeneralCacheConfig, c_GetConfigOrDie,
            c_NewManager, c_RegisterAllWebhooks, c_DSCI_SetupWithManager,
            c_NewDataScienceClusterReconciler] @
           map (\<lambda>sh. c_NewReconciler_service (sh_GetName sh)) (service_registry w) @
           map (\<lambda>ch. c_NewComponentReconciler (ch_GetName ch)) (component_registry w) @
           ts @
           [c_AddHealthzCheck ''healthz'', c_AddReadyzCheck ''readyz'']"
    and "c_mgr_Add (leaderElectionRunnableFunc (cleanup w (Client (RestConfig (config op)) (scheme op))))
           \<in> set ts"
    by blast
  then show ?thesis
    by (simp add: Call_in_set_iff)
qed

lemma sorted_le_last: "sorted xs \<Longrightarrow> (x::nat) \<in> set xs \<Longrightarrow> x \<le> last xs"
  by (induction xs) auto

lemma Setup_error_bounds:
  assumes "fst (Setup w op ctx) = Return (Some e)"
  shows "\<forall>c\<in>set (calls (snd (snd (Setup w op ctx)))). step_of c \<le> failed_step e"
proof
  fix c
  assume c: "c \<in> set (calls (snd (snd (Setup w op ctx))))"
  let ?cs = "calls (snd (snd (Setup w op ctx)))"
  from Setup_error [OF assms] have ne: "?cs \<noteq> []" and l: "step_of (last ?cs) = failed_step e"
    by simp_all
  from Setup_sorted [of w op ctx] have "sorted (map step_of ?cs)"
    by simp
  moreover from c have "step_of c \<in> set (map step_of ?cs)"
    by simp
  ultimately have "step_of c \<le> last (map step_of ?cs)"
    by (rule sorted_le_last)
  with ne l show "step_of c \<le> failed_step e"
    by (simp add: last_map)
qed

lemma Setup_steps_range_calls:
  "\<forall>c\<in>set (calls (snd (snd (Setup w op ctx)))). 1 \<le> step_of c \<and> step_of c \<le> 9"
  using Setup_steps_range [of w op ctx] by simp

lemma cache_builders_Inr:
  assumes "GetOperatorNamespace_res w = Inr ns"
  shows "\<not> isl (createSecretCacheConfig w p) \<and> \<not> isl (createODHGeneralCacheConfig w p)"
  using assms
  by (simp add: createSecretCacheConfig_def createODHGeneralCacheConfig_def getCommonCache_def Let_def)

lemmas example_eval =
  Setup_plan_def startup_plan_def abort_with_def named_def Let_def Errorf_w_def

lemma Setup_examples:
  "fst (Setup example_world (New example_Config) example_Context) = Return None"
  "fst (Setup world_no_webhooks (New example_Config) example_Context)
     = Return (Some (Errorf_w ''unable to register webhooks: '' (errorString ''no certificate'')))"
  "fst (Setup world_refusing_tasks (New example_Config) example_Context)
     = Return (Some (Errorf_w ''error scheduling DSCI creation: '' (errorString ''runnable refused'')))"
  "fst (Setup world_refusing_cleanup (New example_Config) example_Context) = Return None"
  "fst (Setup world_refusing_cleanup_unhealthy (New example_Config) example_Context)
     = Return (Some (Errorf_w ''unable to set up health check: '' (errorString ''no health endpoint'')))"
  "fst (Setup world_no_operator_namespace (New example_Config) example_Context)
     = Return (Some (Errorf_w ''unable to get application namespace into cache: ''
         (errorString ''unable to find operator namespace'')))"
  "fst (Setup world_no_application_namespace (New example_Config) example_Context) = Return None"
  unfolding Setup_result_plan
  by (simp_all add: example_eval world_no_webhooks_def world_refusing_tasks_def
        world_refusing_cleanup_def world_refusing_cleanup_unhealthy_def
        world_no_operator_namespace_def world_no_application_namespace_def)

lemma Setup_example_failing_service:
  "fst (Setup world_failing_service (New example_Config) example_Context)
     = Return (Some (Errorf_w ''unable to init services: ''
         (Errorf_w ''auth: '' (errorString ''no auth''))))"
  "calls (snd (snd (Setup world_failing_service (New example_Config) example_Context)))
     = [c_client_New, c_cluster_Init, c_Init_service ''monitoring'', c_Init_service ''auth'']"
  unfolding Setup_result_plan Setup_calls_plan
  by (simp_all add: example_eval world_failing_service_def)

lemma Setup_example_no_webhooks_calls:
  "calls (snd (snd (Setup world_no_webhooks (New example_Config) example_Context)))
     = [c_client_New, c_cluster_Init, c_Init_service ''monitoring'', c_Init_component ''dashboard'',
        c_createSecretCacheConfig, c_createODHGeneralCacheConfig, c_GetConfigOrDie, c_NewManager,
        c_RegisterAllWebhooks]"
  unfolding Setup_calls_plan
  by (simp add: example_eval world_no_webhooks_def)

lemma example_operator [simp]:
  "config (New example_Config) = example_Config"
  "mgr (New example_Config) = None"
  "Client (RestConfig example_Config) (scheme (New example_Config)) = example_Client"
  by (simp_all add: New_def example_Client_def)

subsection \<open>The opt-out toggle\<close>

text \<open>
  C1, as the code has it. The startup-task phase hands the task that creates the default
  DSCI to the manager exactly when the variable \<^verbatim>\<open>DISABLE_DSC_CONFIG\<close> is absent or set
  to exactly \<^verbatim>\<open>false\<close>; with any other value, the empty string among them, it logs that
  the creation is disabled and the task is not handed over. When the manager accepts the
  task it is among the manager's runnables.
\<close>

theorem DSCI_task_registration:
  "(Call (c_mgr_Add (leaderElectionRunnableFunc (createDefaultDSCIFunc w cfg setupClient platform)))
      \<in> set (snd (snd (addStartupTasks w cfg m ctx setupClient platform)))
    \<longleftrightarrow> environ w ''DISABLE_DSC_CONFIG'' = None \<or> environ w ''DISABLE_DSC_CONFIG'' = Some ''false'') \<and>
   (Logged (Info ''DSCI auto creation is disabled'')
      \<in> set (snd (snd (addStartupTasks w cfg m ctx setupClient platform)))
    \<longleftrightarrow> \<not> (environ w ''DISABLE_DSC_CONFIG'' = None \<or> environ w ''DISABLE_DSC_CONFIG'' = Some ''false'')) \<and>
   ((environ w ''DISABLE_DSC_CONFIG'' = None \<or> environ w ''DISABLE_DSC_CONFIG'' = Some ''false'') \<and>
    mgr_Add_res w (leaderElectionRunnableFunc (createDefaultDSCIFunc w cfg setupClient platform)) = None
    \<longrightarrow> leaderElectionRunnableFunc (createDefaultDSCIFunc w cfg setupClient platform)
          \<in> set (runnables (fst (snd (addStartupTasks w cfg m ctx setupClient platform)))))"
proof (intro conjI impI)
  show "Call (c_mgr_Add (leaderElectionRunnableFunc (createDefaultDSCIFunc w cfg setupClient platform)))
      \<in> set (snd (snd (addStartupTasks w cfg m ctx setupClient platform)))
    \<longleftrightarrow> environ w ''DISABLE_DSC_CONFIG'' = None \<or> environ w ''DISABLE_DSC_CONFIG'' = Some ''false''"
    by (rule addStartupTasks_DSCI)
  show "Logged (Info ''DSCI auto creation is disabled'')
      \<in> set (snd (snd (addStartupTasks w cfg m ctx setupClient platform)))
    \<longleftrightarrow> \<not> (environ w ''DISABLE_DSC_CONFIG'' = None \<or> environ w ''DISABLE_DSC_CONFIG'' = Some ''false'')"
    by (rule addStartupTasks_disabled_log)
  assume "(environ w ''DISABLE_DSC_CONFIG'' = None \<or> environ w ''DISABLE_DSC_CONFIG'' = Some ''false'') \<and>
    mgr_Add_res w (leaderElectionRunnableFunc (createDefaultDSCIFunc w cfg setupClient platform)) = None"
  then show "leaderElectionRunnableFunc (createDefaultDSCIFunc w cfg setupClient platform)
          \<in> set (runnables (fst (snd (addStartupTasks w cfg m ctx setupClient platform))))"
    by (simp add: addStartupTasks_DSCI_runnable)
qed

theorem DSCI_task_registration_witness:
  "Call (c_mgr_Add (leaderElectionRunnableFunc
           (createDefaultDSCIFunc example_world example_Config example_Client ''Open Data Hub'')))
     \<in> set (snd (snd (addStartupTasks example_world example_Config example_Manager example_Context
                        example_Client ''Open Data Hub''))) \<and>
   leaderElectionRunnableFunc
       (createDefaultDSCIFunc example_world example_Config example_Client ''Open Data Hub'')
     \<in> set (runnables (fst (snd (addStartupTasks example_world example_Config example_Manager
                                   example_Context example_Client ''Open Data Hub'')))) \<and>
   Call (c_mgr_Add (leaderElectionRunnableFunc
           (createDefaultDSCIFunc world_false_toggle example_Config example_Client ''Open Data Hub'')))
     \<in> set (snd (snd (addStartupTasks world_false_toggle example_Config example_Manager example_Context
                        example_Client ''Open Data Hub'')))"
  using DSCI_task_registration [where w = example_world and cfg = example_Config
          and setupClient = example_Client and platform = "''Open Data Hub''"
          and m = example_Manager and ctx = example_Context]
        DSCI_task_registration [where w = world_false_toggle and cfg = example_Config
          and setupClient = example_Client and platform = "''Open Data Hub''"
          and m = example_Manager and ctx = example_Context]
  by (simp add: world_false_toggle_def)

text \<open>
  Against C1 as stated: with the variable set to the empty string, which is not the
  string \<^verbatim>\<open>false\<close>, the task is not handed to the manager.
\<close>

theorem DSCI_empty_toggle_counterexample:
  "environ world_empty_toggle ''DISABLE_DSC_CONFIG'' = Some [] \<and>
   Call (c_mgr_Add (leaderElectionRunnableFunc
           (createDefaultDSCIFunc world_empty_toggle example_Config example_Client ''Open Data Hub'')))
     \<notin> set (snd (snd (addStartupTasks world_empty_toggle example_Config example_Manager example_Context
                        example_Client ''Open Data Hub'')))"
  by (simp add: addStartupTasks_DSCI world_empty_toggle_def)

subsection \<open>The cleanup task\<close>

text \<open>
  C6, as the code has it. The startup-task phase hands the cleanup task to the manager
  exactly when it returns nil, which is when no earlier registration failed: the one of
  the DSCI task when the toggle leaves it on, the one of the DSC task on the managed
  platform. Whether the manager accepts the cleanup task has no part in that: a refusal
  is the last thing logged and the phase returns nil, an acceptance puts the task among
  the runnables. In \<^verbatim>\<open>Setup\<close>, once the cleanup task has been handed over, the health
  checks follow, and \<^verbatim>\<open>Setup\<close> succeeds exactly when both of them do.
\<close>

theorem cleanup_task_registration:
  "(Call (c_mgr_Add (leaderElectionRunnableFunc (cleanup w sc)))
      \<in> set (snd (snd (addStartupTasks w cfg m ctx sc p)))
    \<longleftrightarrow> fst (addStartupTasks w cfg m ctx sc p) = None) \<and>
   (fst (addStartupTasks w cfg m ctx sc p) = None \<longleftrightarrow>
      ((environ w ''DISABLE_DSC_CONFIG'' = None \<or> environ w ''DISABLE_DSC_CONFIG'' = Some ''false'') \<longrightarrow>
         mgr_Add_res w (leaderElectionRunnableFunc (createDefaultDSCIFunc w cfg sc p)) = None) \<and>
      (p = ManagedRhoai w \<longrightarrow>
         mgr_Add_res w (leaderElectionRunnableFunc (createDefaultDSCFunc w sc)) = None)) \<and>
   (fst (addStartupTasks w cfg m ctx sc p) = None \<and>
    mgr_Add_res w (leaderElectionRunnableFunc (cleanup w sc)) = Some err \<longrightarrow>
      last (snd (snd (addStartupTasks w cfg m ctx sc p)))
        = Logged (ErrorLog err ''error remove deprecated resources from previous version'')) \<and>
   (fst (addStartupTasks w cfg m ctx sc p) = None \<and>
    mgr_Add_res w (leaderElectionRunnableFunc (cleanup w sc)) = None \<longrightarrow>
      leaderElectionRunnableFunc (cleanup w sc)
        \<in> set (runnables (fst (snd (addStartupTasks w cfg m ctx sc p))))) \<and>
   (Call (c_mgr_Add (leaderElectionRunnableFunc (cleanup w (Client (RestConfig (config op)) (scheme op)))))
      \<in> set (snd (snd (Setup w op ctx'))) \<longrightarrow>
      Call (c_AddHealthzCheck ''healthz'') \<in> set (snd (snd (Setup w op ctx'))) \<and>
      (fst (Setup w op ctx') = Return None \<longleftrightarrow>
         AddHealthzCheck_res w = None \<and> AddReadyzCheck_res w = None))"
proof (intro conjI impI)
  show "Call (c_mgr_Add (leaderElectionRunnableFunc (cleanup w sc)))
      \<in> set (snd (snd (addStartupTasks w cfg m ctx sc p)))
    \<longleftrightarrow> fst (addStartupTasks w cfg m ctx sc p) = None"
    by (rule addStartupTasks_cleanup)
  show "fst (addStartupTasks w cfg m ctx sc p) = None \<longleftrightarrow>
      ((environ w ''DISABLE_DSC_CONFIG'' = None \<or> environ w ''DISABLE_DSC_CONFIG'' = Some ''false'') \<longrightarrow>
         mgr_Add_res w (leaderElectionRunnableFunc (createDefaultDSCIFunc w cfg sc p)) = None) \<and>
      (p = ManagedRhoai w \<longrightarrow>
         mgr_Add_res w (leaderElectionRunnableFunc (createDefaultDSCFunc w sc)) = None)"
    by (rule addStartupTasks_result)
  show "last (snd (snd (addStartupTasks w cfg m ctx sc p)))
        = Logged (ErrorLog err ''error remove deprecated resources from previous version'')"
    if "fst (addStartupTasks w cfg m ctx sc p) = None \<and>
        mgr_Add_res w (leaderElectionRunnableFunc (cleanup w sc)) = Some err"
    using that by (simp add: addStartupTasks_cleanup_refused)
  show "leaderElectionRunnableFunc (cleanup w sc)
        \<in> set (runnables (fst (snd (addStartupTasks w cfg m ctx sc p))))"
    if "fst (addStartupTasks w cfg m ctx sc p) = None \<and>
        mgr_Add_res w (leaderElectionRunnableFunc (cleanup w sc)) = None"
    using that by (simp add: addStartupTasks_cleanup_accepted)
  assume r: "Call (c_mgr_Add (leaderElectionRunnableFunc (cleanup w (Client (RestConfig (config op)) (scheme op)))))
      \<in> set (snd (snd (Setup w op ctx')))"
  from Setup_after_cleanup [OF r]
  show "Call (c_AddHealthzCheck ''healthz'') \<in> set (snd (snd (Setup w op ctx')))"
    and "fst (Setup w op ctx') = Return None \<longleftrightarrow>
         AddHealthzCheck_res w = None \<and> AddReadyzCheck_res w = None"
    by simp_all
qed

theorem cleanup_task_registration_witness:
  "fst (addStartupTasks world_refusing_cleanup example_Config example_Manager example_Context
          example_Client ''Open Data Hub'') = None \<and>
   Call (c_mgr_Add (leaderElectionRunnableFunc (cleanup world_refusing_cleanup example_Client)))
     \<in> set (snd (snd (addStartupTasks world_refusing_cleanup example_Config example_Manager
                        example_Context example_Client ''Open Data Hub''))) \<and>
   last (snd (snd (addStartupTasks world_refusing_cleanup example_Config example_Manager
                     example_Context example_Client ''Open Data Hub'')))
     = Logged (ErrorLog (errorString ''runnable refused'')
                 ''error remove deprecated resources from previous version'') \<and>
   Call (c_AddHealthzCheck ''healthz'')
     \<in> set (snd (snd (Setup world_refusing_cleanup (New example_Config) example_Context))) \<and>
   fst (Setup world_refusing_cleanup (New example_Config) example_Context) = Return None"
proof -
  note th = cleanup_task_registration [where w = world_refusing_cleanup and cfg = example_Config
          and sc = example_Client and p = "''Open Data Hub''" and m = example_Manager
          and ctx = example_Context and op = "New example_Config" and ctx' = example_Context
          and err = "errorString ''runnable refused''"]
  have reached: "Call (c_mgr_Add (leaderElectionRunnableFunc (cleanup world_refusing_cleanup
                   (Client (RestConfig (config (New example_Config))) (scheme (New example_Config))))))
      \<in> set (snd (snd (Setup world_refusing_cleanup (New example_Config) example_Context)))"
    by (rule Setup_cleanup_reached) (rule Setup_examples)
  have w: "environ world_refusing_cleanup ''DISABLE_DSC_CONFIG'' = Some ''true''"
    "ManagedRhoai world_refusing_cleanup = ''OpenShift AI Cloud Service''"
    "mgr_Add_res world_refusing_cleanup (leaderElectionRunnableFunc (cleanup world_refusing_cleanup example_Client))
       = Some (errorString ''runnable refused'')"
    by (simp_all add: world_refusing_cleanup_def)
  from th reached w Setup_examples(4) show ?thesis
    by simp
qed

text \<open>
  Against C6 as stated. First, the phase is reached and its first registration, the one
  of the DSCI task, is refused: the cleanup task is never handed to the manager and
  \<^verbatim>\<open>Setup\<close> returns the error. Second, the registration of the cleanup task is refused
  and the health check that follows fails: \<^verbatim>\<open>Setup\<close> does not return success.
\<close>

theorem cleanup_not_registered_counterexample:
  "Call (c_mgr_Add (leaderElectionRunnableFunc
           (createDefaultDSCIFunc world_refusing_tasks example_Config example_Client ''Open Data Hub'')))
     \<in> set (snd (snd (addStartupTasks world_refusing_tasks example_Config example_Manager
                        example_Context example_Client ''Open Data Hub''))) \<and>
   Call (c_mgr_Add (leaderElectionRunnableFunc (cleanup world_refusing_tasks example_Client)))
     \<notin> set (snd (snd (addStartupTasks world_refusing_tasks example_Config example_Manager
                        example_Context example_Client ''Open Data Hub''))) \<and>
   Call (c_mgr_Add (leaderElectionRunnableFunc (cleanup world_refusing_tasks example_Client)))
     \<notin> set (snd (snd (Setup world_refusing_tasks (New example_Config) example_Context))) \<and>
   fst (Setup world_refusing_tasks (New example_Config) example_Context)
     = Return (Some (Errorf_w ''error scheduling DSCI creation: '' (errorString ''runnable refused''))) \<and>
   mgr_Add_res world_refusing_cleanup_unhealthy
       (leaderElectionRunnableFunc (cleanup world_refusing_cleanup_unhealthy example_Client))
     = Some (errorString ''runnable refused'') \<and>
   fst (Setup world_refusing_cleanup_unhealthy (New example_Config) example_Context)
     = Return (Some (Errorf_w ''unable to set up health check: '' (errorString ''no health endpoint'')))"
proof -
  have a: "Call (c_mgr_Add (leaderElectionRunnableFunc
           (createDefaultDSCIFunc world_refusing_tasks example_Config example_Client ''Open Data Hub'')))
     \<in> set (snd (snd (addStartupTasks world_refusing_tasks example_Config example_Manager
                        example_Context example_Client ''Open Data Hub'')))"
    by (simp add: addStartupTasks_DSCI world_refusing_tasks_def)
  have b: "Call (c_mgr_Add (leaderElectionRunnableFunc (cleanup world_refusing_tasks example_Client)))
     \<notin> set (snd (snd (addStartupTasks world_refusing_tasks example_Config example_Manager
                        example_Context example_Client ''Open Data Hub'')))"
    by (simp add: addStartupTasks_cleanup addStartupTasks_result world_refusing_tasks_def)
  have c: "Call (c_mgr_Add (leaderElectionRunnableFunc (cleanup world_refusing_tasks example_Client)))
     \<notin> set (snd (snd (Setup world_refusing_tasks (New example_Config) example_Context)))"
  proof
    assume "Call (c_mgr_Add (leaderElectionRunnableFunc (cleanup world_refusing_tasks example_Client)))
      \<in> set (snd (snd (Setup world_refusing_tasks (New example_Config) example_Context)))"
    then have "Call (c_mgr_Add (leaderElectionRunnableFunc (cleanup world_refusing_tasks
                 (Client (RestConfig (config (New example_Config))) (scheme (New example_Config))))))
      \<in> set (snd (snd (Setup world_refusing_tasks (New example_Config) example_Context)))"
      by simp
    from Setup_after_cleanup [OF this] Setup_examples(3) show False
      by (simp add: world_refusing_tasks_def)
  qed
  have d: "mgr_Add_res world_refusing_cleanup_unhealthy
       (leaderElectionRunnableFunc (cleanup world_refusing_cleanup_unhealthy example_Client))
     = Some (errorString ''runnable refused'')"
    by (simp add: world_refusing_cleanup_unhealthy_def world_refusing_cleanup_def)
  from a b c d Setup_examples(3) Setup_examples(5) show ?thesis
    by simp
qed


subsection \<open>The order of the steps of Setup\<close>

text \<open>
  C3. \<^verbatim>\<open>Setup\<close> does what the specification's plan says, in its result and in the calls
  it makes: the calls of the nine steps are made in the order of the plan, up to and
  including the first call that returns an error, and that error is returned wrapped with
  the message of its step; no later call is made. So when \<^verbatim>\<open>Setup\<close> returns an error,
  every call planned before the failing one was made and proceeded, the failing call is
  the last one made, and nothing planned after it was called. \<^verbatim>\<open>Setup\<close> returns nil
  exactly when every planned call proceeds; in particular a handler of either registry
  whose \<^verbatim>\<open>Init\<close> or whose reconciler construction returns an error makes \<^verbatim>\<open>Setup\<close> fail.
  In every execution the calls are in the order of the source text, step after step
  from the first to the ninth. When \<^verbatim>\<open>Setup\<close> returns an error, the error is a wrapped
  one, its message names one of the nine steps, the last call made belongs to that step
  and no call of a later step was made. When \<^verbatim>\<open>Setup\<close> returns nil, all the calls were
  made, in this order. The entry point calls \<^verbatim>\<open>Start\<close> exactly when \<^verbatim>\<open>Setup\<close> returned
  nil; otherwise the manager is never started and the exit code is not 0.
\<close>

theorem Setup_fail_fast:
  "(fst (Setup w op ctx), calls (snd (snd (Setup w op ctx)))) = run_plan (Setup_plan w op) \<and>
   (\<exists>k. calls (snd (snd (Setup w op ctx))) = take k (map fst (Setup_plan w op))) \<and>
   (fst (Setup w op ctx) = Return (Some e) \<longrightarrow>
      (\<exists>k<length (Setup_plan w op).
         calls (snd (snd (Setup w op ctx))) = take (Suc k) (map fst (Setup_plan w op)) \<and>
         snd (Setup_plan w op ! k) = Aborts e \<and>
         (\<forall>i<k. snd (Setup_plan w op ! i) = Proceeds))) \<and>
   (fst (Setup w op ctx) = Return None \<longleftrightarrow> (\<forall>x\<in>set (Setup_plan w op). snd x = Proceeds)) \<and>
   (sh \<in> set (service_registry w) \<and>
      (sh_Init sh (GetRelease_Name w) \<noteq> None \<or> sh_NewReconciler sh \<noteq> None) \<longrightarrow>
      fst (Setup w op ctx) \<noteq> Return None) \<and>
   (ch \<in> set (component_registry w) \<and>
      (ch_Init ch (GetRelease_Name w) \<noteq> None \<or> ch_NewComponentReconciler ch \<noteq> None) \<longrightarrow>
      fst (Setup w op ctx) \<noteq> Return None) \<and>
   sorted (map site (calls (snd (snd (Setup w op ctx))))) \<and>
   sorted (map step_of (calls (snd (snd (Setup w op ctx))))) \<and>
   (\<forall>c\<in>set (calls (snd (snd (Setup w op ctx)))). 1 \<le> step_of c \<and> step_of c \<le> 9) \<and>
   (fst (Setup w op ctx) = Return (Some e) \<longrightarrow>
      (\<exists>q e'. e = Errorf_w q e') \<and> 1 \<le> failed_step e \<and> failed_step e \<le> 9 \<and>
      step_of (last (calls (snd (snd (Setup w op ctx))))) = failed_step e \<and>
      (\<forall>c\<in>set (calls (snd (snd (Setup w op ctx)))). step_of c \<le> failed_step e)) \<and>
   (fst (Setup w op ctx) = Return None \<longrightarrow>
      (\<exists>ts. calls (snd (snd (Setup w op ctx))) =
           [c_client_New, c_cluster_Init] @
           map (\<lambda>sh. c_Init_service (sh_GetName sh)) (service_registry w) @
           map (\<lambda>ch. c_Init_component (ch_GetName ch)) (component_registry w) @
           [c_createSecretCacheConfig, c_createODHGeneralCacheConfig, c_GetConfigOrDie,
            c_NewManager, c_RegisterAllWebhooks, c_DSCI_SetupWithManager,
            c_NewDataScienceClusterReconciler] @
           map (\<lambda>sh. c_NewReconciler_service (sh_GetName sh)) (service_registry w) @
           map (\<lambda>ch. c_NewComponentReconciler (ch_GetName ch)) (component_registry w) @
           ts @
           [c_AddHealthzCheck ''healthz'', c_AddReadyzCheck ''readyz''] \<and>
         map step_of ts = replicate (length ts) 8 \<and>
         c_mgr_Add (leaderElectionRunnableFunc (cleanup w (Client (RestConfig (config op)) (scheme op))))
           \<in> set ts)) \<and>
   (LoadConfig_res w = Inr cfg \<longrightarrow>
      (Call c_Start \<in> set (fst (main w)) \<longleftrightarrow>
            fst (Setup w (New cfg) (IntoContext SignalHandler ''setup'')) = Return None) \<and>
         (Call c_mgr_Start \<in> set (fst (main w)) \<longrightarrow>
            fst (Setup w (New cfg) (IntoContext SignalHandler ''setup'')) = Return None) \<and>
         (fst (Setup w (New cfg) (IntoContext SignalHandler ''setup'')) \<noteq> Return None \<longrightarrow>
            snd (main w) \<noteq> 0))"
proof -
  note A = Setup_refines_plan [of w op ctx]
  note A2 = Setup_calls_prefix [of w op ctx]
  have G: "(fst (Setup w op ctx) = Return (Some e) \<longrightarrow>
      (\<exists>k<length (Setup_plan w op).
         calls (snd (snd (Setup w op ctx))) = take (Suc k) (map fst (Setup_plan w op)) \<and>
         snd (Setup_plan w op ! k) = Aborts e \<and>
         (\<forall>i<k. snd (Setup_plan w op ! i) = Proceeds)))"
    by (rule impI) (rule Setup_abort)
  note A3 = Setup_success_iff [of w op ctx]
  have H1: "(sh \<in> set (service_registry w) \<and>
      (sh_Init sh (GetRelease_Name w) \<noteq> None \<or> sh_NewReconciler sh \<noteq> None) \<longrightarrow>
      fst (Setup w op ctx) \<noteq> Return None)"
    by (rule impI, erule conjE) (rule Setup_service_failure)
  have H2: "(ch \<in> set (component_registry w) \<and>
      (ch_Init ch (GetRelease_Name w) \<noteq> None \<or> ch_NewComponentReconciler ch \<noteq> None) \<longrightarrow>
      fst (Setup w op ctx) \<noteq> Return None)"
    by (rule impI, erule conjE) (rule Setup_component_failure)
  note B1 = Setup_sorted [of w op ctx, THEN conjunct1]
  note B2 = Setup_sorted [of w op ctx, THEN conjunct2]
  note C = Setup_steps_range_calls [of w op ctx]
  have D: "(fst (Setup w op ctx) = Return (Some e) \<longrightarrow>
      (\<exists>q e'. e = Errorf_w q e') \<and> 1 \<le> failed_step e \<and> failed_step e \<le> 9 \<and>
      step_of (last (calls (snd (snd (Setup w op ctx))))) = failed_step e \<and>
      (\<forall>c\<in>set (calls (snd (snd (Setup w op ctx)))). step_of c \<le> failed_step e))"
  proof (rule impI)
    assume a: "fst (Setup w op ctx) = Return (Some e)"
    from Setup_error [OF a] Setup_error_bounds [OF a]
    show "(\<exists>q e'. e = Errorf_w q e') \<and> 1 \<le> failed_step e \<and> failed_step e \<le> 9 \<and>
      step_of (last (calls (snd (snd (Setup w op ctx))))) = failed_step e \<and>
      (\<forall>c\<in>set (calls (snd (snd (Setup w op ctx)))). step_of c \<le> failed_step e)"
      by simp
  qed
  have E: "(fst (Setup w op ctx) = Return None \<longrightarrow>
      (\<exists>ts. calls (snd (snd (Setup w op ctx))) =
           [c_client_New, c_cluster_Init] @
           map (\<lambda>sh. c_Init_service (sh_GetName sh)) (service_registry w) @
           map (\<lambda>ch. c_Init_component (ch_GetName ch)) (component_registry w) @
           [c_createSecretCacheConfig, c_createODHGeneralCacheConfig, c_GetConfigOrDie,
            c_NewManager, c_RegisterAllWebhooks, c_DSCI_SetupWithManager,
            c_NewDataScienceClusterReconciler] @
           map (\<lambda>sh. c_NewReconciler_service (sh_GetName sh)) (service_registry w) @
           map (\<lambda>ch. c_NewComponentReconciler (ch_GetName ch)) (component_registry w) @
           ts @
           [c_AddHealthzCheck ''healthz'', c_AddReadyzCheck ''readyz''] \<and>
         map step_of ts = replicate (length ts) 8 \<and>
         c_mgr_Add (leaderElectionRunnableFunc (cleanup w (Client (RestConfig (config op)) (scheme op))))
           \<in> set ts))"
    by (rule impI) (rule Setup_success)
  have F: "(LoadConfig_res w = Inr cfg \<longrightarrow>
      (Call c_Start \<in> set (fst (main w)) \<longleftrightarrow>
            fst (Setup w (New cfg) (IntoContext SignalHandler ''setup'')) = Return None) \<and>
         (Call c_mgr_Start \<in> set (fst (main w)) \<longrightarrow>
            fst (Setup w (New cfg) (IntoContext SignalHandler ''setup'')) = Return None) \<and>
         (fst (Setup w (New cfg) (IntoContext SignalHandler ''setup'')) \<noteq> Return None \<longrightarrow>
            snd (main w) \<noteq> 0))"
    by (rule impI) (rule main_Start)
  show ?thesis
    by (intro conjI) (fact A A2 G A3 H1 H2 B1 B2 C D E F)+
qed

theorem Setup_fail_fast_witness:
  "fst (Setup world_no_webhooks (New example_Config) example_Context)
     = Return (Some (Errorf_w ''unable to register webhooks: '' (errorString ''no certificate''))) \<and>
   calls (snd (snd (Setup world_no_webhooks (New example_Config) example_Context)))
     = [c_client_New, c_cluster_Init, c_Init_service ''monitoring'', c_Init_component ''dashboard'',
        c_createSecretCacheConfig, c_createODHGeneralCacheConfig, c_GetConfigOrDie, c_NewManager,
        c_RegisterAllWebhooks] \<and>
   failed_step (Errorf_w ''unable to register webhooks: '' (errorString ''no certificate'')) = 5 \<and>
   step_of (last (calls (snd (snd (Setup world_no_webhooks (New example_Config) example_Context))))) = 5 \<and>
   Call c_DSCI_SetupWithManager
     \<notin> set (snd (snd (Setup world_no_webhooks (New example_Config) example_Context))) \<and>
   Call c_Start \<notin> set (fst (main world_no_webhooks)) \<and>
   snd (main world_no_webhooks) \<noteq> 0 \<and>
   Call c_Start \<in> set (fst (main example_world)) \<and>
   fst (Setup world_failing_service (New example_Config) example_Context) \<noteq> Return None \<and>
   fst (Setup world_failing_service (New example_Config) example_Context)
     = Return (Some (Errorf_w ''unable to init services: ''
         (Errorf_w ''auth: '' (errorString ''no auth'')))) \<and>
   calls (snd (snd (Setup world_failing_service (New example_Config) example_Context)))
     = [c_client_New, c_cluster_Init, c_Init_service ''monitoring'', c_Init_service ''auth'']"
proof -
  let ?e = "Errorf_w ''unable to register webhooks: '' (errorString ''no certificate'')"
  let ?auth = "\<lparr>sh_GetName = ''auth'', sh_Init = (\<lambda>p. Some (errorString ''no auth'')),
                sh_NewReconciler = None\<rparr>"
  note th = Setup_fail_fast [where w = world_no_webhooks and op = "New example_Config"
              and ctx = example_Context and e = ?e and cfg = example_Config]
  note th' = Setup_fail_fast [where w = example_world and op = "New example_Config"
              and ctx = example_Context and e = ?e and cfg = example_Config]
  note th'' = Setup_fail_fast [where w = world_failing_service and op = "New example_Config"
              and ctx = example_Context and sh = ?auth]
  note S = Setup_examples(2)
  have cfg: "LoadConfig_res world_no_webhooks = Inr example_Config"
    by (simp add: world_no_webhooks_def)
  have fs: "failed_step ?e = 5"
    by (simp add: Errorf_w_def)
  have p: "run_plan (Setup_plan world_no_webhooks (New example_Config))
             = (Return (Some ?e),
                [c_client_New, c_cluster_Init, c_Init_service ''monitoring'', c_Init_component ''dashboard'',
                 c_createSecretCacheConfig, c_createODHGeneralCacheConfig, c_GetConfigOrDie, c_NewManager,
                 c_RegisterAllWebhooks])"
    by (simp add: example_eval world_no_webhooks_def)
  from th [THEN conjunct1] have
    cs: "calls (snd (snd (Setup world_no_webhooks (New example_Config) example_Context)))
     = [c_client_New, c_cluster_Init, c_Init_service ''monitoring'', c_Init_component ''dashboard'',
        c_createSecretCacheConfig, c_createODHGeneralCacheConfig, c_GetConfigOrDie, c_NewManager,
        c_RegisterAllWebhooks]"
    unfolding p by simp
  from th S fs have l: "step_of (last (calls (snd (snd (Setup world_no_webhooks (New example_Config) example_Context))))) = 5"
    and bound: "\<forall>c\<in>set (calls (snd (snd (Setup world_no_webhooks (New example_Config) example_Context)))). step_of c \<le> 5"
    by simp_all
  from bound have n: "Call c_DSCI_SetupWithManager
     \<notin> set (snd (snd (Setup world_no_webhooks (New example_Config) example_Context)))"
    by (auto simp: Call_in_set_iff)
  from th cfg S have m: "Call c_Start \<notin> set (fst (main world_no_webhooks))"
    "snd (main world_no_webhooks) \<noteq> 0"
    by (simp_all add: example_Context_def)
  from th' Setup_examples(1) have m': "Call c_Start \<in> set (fst (main example_world))"
    by (simp add: example_Context_def)
  have "?auth \<in> set (service_registry world_failing_service) \<and>
      (sh_Init ?auth (GetRelease_Name world_failing_service) \<noteq> None \<or> sh_NewReconciler ?auth \<noteq> None)"
    by (simp add: world_failing_service_def)
  with th'' [THEN conjunct2, THEN conjunct2, THEN conjunct2, THEN conjunct2, THEN conjunct1]
  have f: "fst (Setup world_failing_service (New example_Config) example_Context) \<noteq> Return None"
    by (rule mp)
  have p': "run_plan (Setup_plan world_failing_service (New example_Config))
             = (Return (Some (Errorf_w ''unable to init services: ''
                  (Errorf_w ''auth: '' (errorString ''no auth'')))),
                [c_client_New, c_cluster_Init, c_Init_service ''monitoring'', c_Init_service ''auth''])"
    by (simp add: example_eval world_failing_service_def)
  from th'' [THEN conjunct1] have
    f': "fst (Setup world_failing_service (New example_Config) example_Context)
     = Return (Some (Errorf_w ''unable to init services: ''
         (Errorf_w ''auth: '' (errorString ''no auth''))))"
    and f'': "calls (snd (snd (Setup world_failing_service (New example_Config) example_Context)))
     = [c_client_New, c_cluster_Init, c_Init_service ''monitoring'', c_Init_service ''auth'']"
    unfolding p' by simp_all
  from S cs fs l n m m' f f' f'' show ?thesis
    by (intro conjI)
qed

subsection \<open>The cache builders when a namespace is missing\<close>

text \<open>
  C7, as the code has it. When the operator namespace cannot be resolved, both builders
  return that error, \<^verbatim>\<open>Setup\<close> does not succeed and never builds the manager, and if it
  gets as far as the cache policy it returns the error wrapped with the message of that
  step. The lookup of the application namespace returns a string and no error: whenever
  the operator namespace is resolved both builders succeed, whatever that string is, and
  their namespace sets are not empty; they hold the operator namespace and the string
  that the application-namespace lookup returned.
\<close>

theorem cache_builder_failure:
  "(GetOperatorNamespace_res w = Inl e \<longrightarrow>
      createSecretCacheConfig w p = Inl e \<and> createODHGeneralCacheConfig w p = Inl e \<and>
      fst (Setup w op ctx) \<noteq> Return None \<and>
      Call c_NewManager \<notin> set (snd (snd (Setup w op ctx))) \<and>
      (Call c_createSecretCacheConfig \<in> set (snd (snd (Setup w op ctx))) \<longrightarrow>
         fst (Setup w op ctx) =
           Return (Some (Errorf_w ''unable to get application namespace into cache: '' e)))) \<and>
   (GetOperatorNamespace_res w = Inr ns \<longrightarrow>
      \<not> isl (createSecretCacheConfig w p) \<and> \<not> isl (createODHGeneralCacheConfig w p) \<and>
      secretCacheNamespaces w p \<noteq> {} \<and> generalCacheNamespaces w p \<noteq> {} \<and>
      ns \<in> secretCacheNamespaces w p \<and> ns \<in> generalCacheNamespaces w p \<and>
      GetApplicationNamespace_res w \<in> secretCacheNamespaces w p \<and>
      GetApplicationNamespace_res w \<in> generalCacheNamespaces w p)"
proof (intro conjI impI)
  assume l: "GetOperatorNamespace_res w = Inl e"
  show "createSecretCacheConfig w p = Inl e"
    by (rule createSecretCacheConfig_Inl) (rule l)
  show "createODHGeneralCacheConfig w p = Inl e"
    by (rule createODHGeneralCacheConfig_Inl) (rule l)
  from Setup_operator_namespace_unresolved [OF l, of op ctx]
  show "fst (Setup w op ctx) \<noteq> Return None"
    and "Call c_NewManager \<notin> set (snd (snd (Setup w op ctx)))"
    by simp_all
  show "fst (Setup w op ctx) =
           Return (Some (Errorf_w ''unable to get application namespace into cache: '' e))"
    if "Call c_createSecretCacheConfig \<in> set (snd (snd (Setup w op ctx)))"
    using Setup_operator_namespace_unresolved [OF l, of op ctx] that by simp
next
  assume r: "GetOperatorNamespace_res w = Inr ns"
  from cache_builders_Inr [OF r, of p]
  show "\<not> isl (createSecretCacheConfig w p)" and "\<not> isl (createODHGeneralCacheConfig w p)"
    by simp_all
  show "secretCacheNamespaces w p \<noteq> {}" and "generalCacheNamespaces w p \<noteq> {}"
    and "ns \<in> secretCacheNamespaces w p" and "ns \<in> generalCacheNamespaces w p"
    and "GetApplicationNamespace_res w \<in> secretCacheNamespaces w p"
    and "GetApplicationNamespace_res w \<in> generalCacheNamespaces w p"
    by (simp_all add: secretCacheNamespaces_eq [OF r] generalCacheNamespaces_eq [OF r])
qed

theorem cache_builder_failure_witness:
  "createSecretCacheConfig world_no_operator_namespace ''Open Data Hub''
     = Inl (errorString ''unable to find operator namespace'') \<and>
   createODHGeneralCacheConfig world_no_operator_namespace ''Open Data Hub''
     = Inl (errorString ''unable to find operator namespace'') \<and>
   fst (Setup world_no_operator_namespace (New example_Config) example_Context) \<noteq> Return None \<and>
   Call c_NewManager
     \<notin> set (snd (snd (Setup world_no_operator_namespace (New example_Config) example_Context))) \<and>
   secretCacheNamespaces example_world ''Open Data Hub'' \<noteq> {} \<and>
   ''opendatahub'' \<in> generalCacheNamespaces example_world ''Open Data Hub''"
  using cache_builder_failure [where w = world_no_operator_namespace
          and e = "errorString ''unable to find operator namespace''"
          and p = "''Open Data Hub''" and op = "New example_Config" and ctx = example_Context]
        cache_builder_failure [where w = example_world and ns = "''opendatahub-operator-system''"
          and p = "''Open Data Hub''"]
  by (simp add: world_no_operator_namespace_def)

text \<open>
  Against C7 as stated: the application namespace is not resolved (the lookup returns the
  empty string) and the operator namespace is; both builders succeed, the empty string is
  a key of both maps, and \<^verbatim>\<open>Setup\<close> returns nil.
\<close>

theorem unresolved_application_namespace_counterexample:
  "GetApplicationNamespace_res world_no_application_namespace = [] \<and>
   \<not> isl (createSecretCacheConfig world_no_application_namespace ''Open Data Hub'') \<and>
   \<not> isl (createODHGeneralCacheConfig world_no_application_namespace ''Open Data Hub'') \<and>
   [] \<in> secretCacheNamespaces world_no_application_namespace ''Open Data Hub'' \<and>
   [] \<in> generalCacheNamespaces world_no_application_namespace ''Open Data Hub'' \<and>
   fst (Setup world_no_application_namespace (New example_Config) example_Context) = Return None"
proof -
  have r: "GetOperatorNamespace_res world_no_application_namespace = Inr ''opendatahub-operator-system''"
    and a: "GetApplicationNamespace_res world_no_application_namespace = []"
    by (simp_all add: world_no_application_namespace_def)
  from cache_builders_Inr [OF r, of "''Open Data Hub''"] a Setup_examples(7) show ?thesis
    by (simp add: secretCacheNamespaces_eq [OF r] generalCacheNamespaces_eq [OF r])
qed

subsection \<open>Start without a manager\<close>

text \<open>
  C9, as the code has it. The operator that \<^verbatim>\<open>New\<close> builds has no manager, and \<^verbatim>\<open>Start\<close>
  on it panics with a nil pointer dereference: it returns nothing and starts nothing.
  So does \<^verbatim>\<open>Start\<close> on every operator without a manager, while with a manager it returns
  what the manager's run loop returns. On an operator without a manager, \<^verbatim>\<open>Setup\<close> leaves
  one exactly when it got to build the manager and that succeeded; after a \<^verbatim>\<open>Setup\<close> that
  returned nil there is one. So \<^verbatim>\<open>Start\<close> after a \<^verbatim>\<open>Setup\<close> on an operator without a
  manager panics exactly when that \<^verbatim>\<open>Setup\<close> stopped before it had built the manager.
\<close>

theorem Start_without_manager:
  "mgr (New cfg) = None \<and>
   Start w (New cfg) ctx = (Panic ''invalid memory address or nil pointer dereference'', []) \<and>
   (mgr op = None \<longrightarrow>
      Start w op ctx = (Panic ''invalid memory address or nil pointer dereference'', [])) \<and>
   (mgr op \<noteq> None \<longrightarrow> Start w op ctx = (Return (mgr_Start_res w), [Call c_mgr_Start])) \<and>
   (mgr op = None \<longrightarrow>
      (mgr (fst (snd (Setup w op ctx))) \<noteq> None \<longleftrightarrow>
         Call c_NewManager \<in> set (snd (snd (Setup w op ctx))) \<and> NewManager_res w = None) \<and>
      (fst (Setup w op ctx) = Return None \<longrightarrow> mgr (fst (snd (Setup w op ctx))) \<noteq> None)) \<and>
   (mgr op = None \<longrightarrow>
      (fst (Start w (fst (snd (Setup w op ctx))) ctx')
           = Panic ''invalid memory address or nil pointer dereference'' \<longleftrightarrow>
         \<not> (Call c_NewManager \<in> set (snd (snd (Setup w op ctx))) \<and> NewManager_res w = None)))"
proof (intro conjI impI)
  show "mgr (New cfg) = None"
    by (simp add: New_def)
  then show "Start w (New cfg) ctx = (Panic ''invalid memory address or nil pointer dereference'', [])"
    by (simp add: Start_def)
  show "Start w op ctx = (Panic ''invalid memory address or nil pointer dereference'', [])"
    if "mgr op = None"
    using that by (simp add: Start_def)
  show "Start w op ctx = (Return (mgr_Start_res w), [Call c_mgr_Start])" if "mgr op \<noteq> None"
    using that by (auto simp: Start_def)
  show "mgr (fst (snd (Setup w op ctx))) \<noteq> None \<longleftrightarrow>
         Call c_NewManager \<in> set (snd (snd (Setup w op ctx))) \<and> NewManager_res w = None"
    if "mgr op = None"
    by (rule Setup_mgr [OF that, THEN conjunct1])
  show "mgr (fst (snd (Setup w op ctx))) \<noteq> None"
    if "mgr op = None" and "fst (Setup w op ctx) = Return None"
    by (rule mp [OF Setup_mgr [OF that(1), THEN conjunct2]]) (rule that(2))
  show "fst (Start w (fst (snd (Setup w op ctx))) ctx')
           = Panic ''invalid memory address or nil pointer dereference'' \<longleftrightarrow>
         \<not> (Call c_NewManager \<in> set (snd (snd (Setup w op ctx))) \<and> NewManager_res w = None)"
    if "mgr op = None"
    unfolding Setup_mgr [OF that, THEN conjunct1, symmetric]
    by (simp add: Start_def split: option.splits)
qed

theorem Start_without_manager_witness:
  "Start example_world (New example_Config) example_Context
     = (Panic ''invalid memory address or nil pointer dereference'', []) \<and>
   mgr (fst (snd (Setup example_world (New example_Config) example_Context))) \<noteq> None \<and>
   Start example_world (fst (snd (Setup example_world (New example_Config) example_Context))) example_Context
     = (Return None, [Call c_mgr_Start]) \<and>
   mgr (fst (snd (Setup world_no_operator_namespace (New example_Config) example_Context))) = None \<and>
   Start world_no_operator_namespace
       (fst (snd (Setup world_no_operator_namespace (New example_Config) example_Context))) example_Context
     = (Panic ''invalid memory address or nil pointer dereference'', []) \<and>
   fst (Start world_no_operator_namespace
       (fst (snd (Setup world_no_operator_namespace (New example_Config) example_Context))) example_Context)
     = Panic ''invalid memory address or nil pointer dereference''"
proof -
  note th1 = Start_without_manager [where w = example_world and cfg = example_Config
               and op = "New example_Config" and ctx = example_Context]
  note th2 = Start_without_manager [where w = example_world and cfg = example_Config
               and op = "fst (snd (Setup example_world (New example_Config) example_Context))"
               and ctx = example_Context]
  note th3 = Start_without_manager [where w = world_no_operator_namespace and cfg = example_Config
               and op = "New example_Config" and ctx = example_Context and ctx' = example_Context]
  note th4 = Start_without_manager [where w = world_no_operator_namespace and cfg = example_Config
               and op = "fst (snd (Setup world_no_operator_namespace (New example_Config) example_Context))"
               and ctx = example_Context]
  have n: "mgr (New example_Config) = None"
    by simp
  note s1 = th1 [THEN conjunct2, THEN conjunct2, THEN conjunct2, THEN conjunct2, THEN conjunct1,
              THEN mp, OF n]
  have a: "mgr (fst (snd (Setup example_world (New example_Config) example_Context))) \<noteq> None"
    by (rule mp [OF s1 [THEN conjunct2]]) (rule Setup_examples)
  have "Start example_world (fst (snd (Setup example_world (New example_Config) example_Context))) example_Context
          = (Return (mgr_Start_res example_world), [Call c_mgr_Start])"
    by (rule mp [OF th2 [THEN conjunct2, THEN conjunct2, THEN conjunct2, THEN conjunct1]]) (rule a)
  then have c: "Start example_world (fst (snd (Setup example_world (New example_Config) example_Context))) example_Context
          = (Return None, [Call c_mgr_Start])"
    by simp
  have "GetOperatorNamespace_res world_no_operator_namespace
          = Inl (errorString ''unable to find operator namespace'')"
    by (simp add: world_no_operator_namespace_def)
  from Setup_operator_namespace_unresolved [OF this, of "New example_Config" example_Context]
  have nm: "Call c_NewManager
     \<notin> set (snd (snd (Setup world_no_operator_namespace (New example_Config) example_Context)))"
    by simp
  note s3 = th3 [THEN conjunct2, THEN conjunct2, THEN conjunct2, THEN conjunct2, THEN conjunct1,
              THEN mp, OF n]
  have b: "mgr (fst (snd (Setup world_no_operator_namespace (New example_Config) example_Context))) = None"
    using s3 [THEN conjunct1] nm by blast
  note d = th4 [THEN conjunct2, THEN conjunct2, THEN conjunct1, THEN mp, OF b]
  note s5 = th3 [THEN conjunct2, THEN conjunct2, THEN conjunct2, THEN conjunct2, THEN conjunct2,
              THEN mp, OF n]
  from nm have "\<not> (Call c_NewManager
       \<in> set (snd (snd (Setup world_no_operator_namespace (New example_Config) example_Context))) \<and>
     NewManager_res world_no_operator_namespace = None)"
    by simp
  then have e: "fst (Start world_no_operator_namespace
       (fst (snd (Setup world_no_operator_namespace (New example_Config) example_Context))) example_Context)
     = Panic ''invalid memory address or nil pointer dereference''"
    by (rule iffD2 [OF s5])
  from th1 [THEN conjunct2, THEN conjunct1] a c b d e show ?thesis
    by (intro conjI)
qed

text \<open>
  Against C9 as stated: when webhook registration fails, \<^verbatim>\<open>Setup\<close> returns an error
  after it has built the manager and assigned the field (line 178). \<^verbatim>\<open>Start\<close> on the
  operator it leaves, before any successful \<^verbatim>\<open>Setup\<close>, does not panic: it runs the manager
  and returns what its run loop returns.
\<close>

theorem Start_after_failed_Setup_counterexample:
  "mgr (New example_Config) = None \<and>
   fst (Setup world_no_webhooks (New example_Config) example_Context)
     = Return (Some (Errorf_w ''unable to register webhooks: '' (errorString ''no certificate''))) \<and>
   mgr (fst (snd (Setup world_no_webhooks (New example_Config) example_Context))) \<noteq> None \<and>
   Start world_no_webhooks
       (fst (snd (Setup world_no_webhooks (New example_Config) example_Context))) example_Context
     = (Return None, [Call c_mgr_Start]) \<and>
   fst (Start world_no_webhooks
       (fst (snd (Setup world_no_webhooks (New example_Config) example_Context))) example_Context)
     \<noteq> Panic ''invalid memory address or nil pointer dereference''"
proof -
  have n: "mgr (New example_Config) = None"
    by simp
  have "c_NewManager \<in> set (calls (snd (snd (Setup world_no_webhooks (New example_Config) example_Context))))"
    unfolding Setup_example_no_webhooks_calls by simp
  then have c: "Call c_NewManager \<in> set (snd (snd (Setup world_no_webhooks (New example_Config) example_Context)))"
    by (simp add: Call_in_set_iff)
  have r: "NewManager_res world_no_webhooks = None"
    by (simp add: world_no_webhooks_def)
  from c r have m: "mgr (fst (snd (Setup world_no_webhooks (New example_Config) example_Context))) \<noteq> None"
    by (simp only: Setup_mgr [OF n, THEN conjunct1] simp_thms)
  then have s: "Start world_no_webhooks
       (fst (snd (Setup world_no_webhooks (New example_Config) example_Context))) example_Context
     = (Return None, [Call c_mgr_Start])"
    by (auto simp: Start_def world_no_webhooks_def)
  then have p: "fst (Start world_no_webhooks
       (fst (snd (Setup world_no_webhooks (New example_Config) example_Context))) example_Context)
     \<noteq> Panic ''invalid memory address or nil pointer dereference''"
    by simp
  from n Setup_examples(2) m s p show ?thesis
    by (intro conjI)
qed

end
